theory Spec2Isabelle
  imports Main "HOL-Library.Word"
begin

section \<open>gRPC status codes and errors (packages codes and status, as grpcmetrics.go uses them)\<close>

text \<open>
  \<open>codes.Code\<close> is a \<open>uint32\<close>. The constants and \<open>Code.String\<close> are those of
  \<open>google.golang.org/grpc/codes\<close>; grpcmetrics.go names \<open>codes.OK\<close> and
  \<open>codes.Internal\<close>, its tests name \<open>codes.NotFound\<close> and \<open>codes.InvalidArgument\<close>.
\<close>

type_synonym Code = "32 word"

definition codes_OK :: Code where "codes_OK = 0"
definition codes_Canceled :: Code where "codes_Canceled = 1"
definition codes_Unknown :: Code where "codes_Unknown = 2"
definition codes_InvalidArgument :: Code where "codes_InvalidArgument = 3"
definition codes_DeadlineExceeded :: Code where "codes_DeadlineExceeded = 4"
definition codes_NotFound :: Code where "codes_NotFound = 5"
definition codes_AlreadyExists :: Code where "codes_AlreadyExists = 6"
definition codes_PermissionDenied :: Code where "codes_PermissionDenied = 7"
definition codes_ResourceExhausted :: Code where "codes_ResourceExhausted = 8"
definition codes_FailedPrecondition :: Code where "codes_FailedPrecondition = 9"
definition codes_Aborted :: Code where "codes_Aborted = 10"
definition codes_OutOfRange :: Code where "codes_OutOfRange = 11"
definition codes_Unimplemented :: Code where "codes_Unimplemented = 12"
definition codes_Internal :: Code where "codes_Internal = 13"
definition codes_Unavailable :: Code where "codes_Unavailable = 14"
definition codes_DataLoss :: Code where "codes_DataLoss = 15"
definition codes_Unauthenticated :: Code where "codes_Unauthenticated = 16"

lemmas codes_defs =
  codes_OK_def codes_Canceled_def codes_Unknown_def codes_InvalidArgument_def
  codes_DeadlineExceeded_def codes_NotFound_def codes_AlreadyExists_def
  codes_PermissionDenied_def codes_ResourceExhausted_def codes_FailedPrecondition_def
  codes_Aborted_def codes_OutOfRange_def codes_Unimplemented_def codes_Internal_def
  codes_Unavailable_def codes_DataLoss_def codes_Unauthenticated_def

text \<open>\<open>strconv.FormatInt(n, 10)\<close> on a value that is never negative here.\<close>

definition digit_char :: "nat \<Rightarrow> char" where
  "digit_char d = char_of (48 + d)"

fun FormatInt :: "nat \<Rightarrow> string" where
  "FormatInt n = (if n < 10 then [digit_char n] else FormatInt (n div 10) @ [digit_char (n mod 10)])"

declare FormatInt.simps [simp del]

text \<open>\<open>Code.String\<close>: the name of a known code, \<open>Code(n)\<close> for any other.\<close>

definition Code_String :: "Code \<Rightarrow> string" where
  "Code_String c =
     (if c = codes_OK then ''OK''
      else if c = codes_Canceled then ''Canceled''
      else if c = codes_Unknown then ''Unknown''
      else if c = codes_InvalidArgument then ''InvalidArgument''
      else if c = codes_DeadlineExceeded then ''DeadlineExceeded''
      else if c = codes_NotFound then ''NotFound''
      else if c = codes_AlreadyExists then ''AlreadyExists''
      else if c = codes_PermissionDenied then ''PermissionDenied''
      else if c = codes_ResourceExhausted then ''ResourceExhausted''
      else if c = codes_FailedPrecondition then ''FailedPrecondition''
      else if c = codes_Aborted then ''Aborted''
      else if c = codes_OutOfRange then ''OutOfRange''
      else if c = codes_Unimplemented then ''Unimplemented''
      else if c = codes_Internal then ''Internal''
      else if c = codes_Unavailable then ''Unavailable''
      else if c = codes_DataLoss then ''DataLoss''
      else if c = codes_Unauthenticated then ''Unauthenticated''
      else ''Code('' @ FormatInt (unat c) @ '')'')"

text \<open>\<open>status.Status\<close>: a code and a message. \<open>status.New\<close> builds one.\<close>

record Status =
  Code :: Code
  Message :: string

definition status_New :: "Code \<Rightarrow> string \<Rightarrow> Status" where
  "status_New c msg = \<lparr>Code = c, Message = msg\<rparr>"

text \<open>
  A non-nil Go \<open>error\<close> is either one that carries a gRPC status (it implements
  \<open>GRPCStatus()\<close>, as the value of \<open>status.Error\<close> does) or any other error, of which
  only the text \<open>err.Error()\<close> matters here. The nil error is \<open>None\<close> of \<open>error option\<close>.
  An error that only wraps a status error counts as carrying the status that
  \<open>status.FromError\<close> extracts from it.
\<close>

datatype error = StatusError Status | OpaqueError string

fun Error :: "error \<Rightarrow> string" where
  "Error (StatusError s) = ''rpc error: code = '' @ Code_String (Code s) @ '' desc = '' @ Message s"
| "Error (OpaqueError msg) = msg"

text \<open>
  \<open>status.FromError\<close> on a non-nil error: the carried status and true, or a status of
  code Unknown built from the error's text and false.
\<close>

fun status_FromError :: "error \<Rightarrow> Status \<times> bool" where
  "status_FromError (StatusError s) = (s, True)"
| "status_FromError (OpaqueError msg) = (status_New codes_Unknown msg, False)"

section \<open>grpcmetrics.go: status and attributes\<close>

definition grpcStatusOK :: Status where
  "grpcStatusOK = status_New codes_OK ''OK''"

definition getRPCStatus :: "error option \<Rightarrow> Status" where
  "getRPCStatus err =
     (case err of
        None \<Rightarrow> grpcStatusOK
      | Some e \<Rightarrow>
          (case status_FromError e of
             (s, True) \<Rightarrow> s
           | (s, False) \<Rightarrow> status_New codes_Internal (Error e)))"

text \<open>
  \<open>strings.Split(s, sep)\<close> for a separator of one byte: cut at the first occurrence of
  the separator and go on with what follows it; a string without the separator is the
  single segment (also the empty string).
\<close>

function strings_Split :: "string \<Rightarrow> char \<Rightarrow> string list" where
  "strings_Split s sep =
     (if sep \<in> set s
      then takeWhile (\<lambda>c. c \<noteq> sep) s # strings_Split (tl (dropWhile (\<lambda>c. c \<noteq> sep) s)) sep
      else [s])"
  by pat_completeness auto
termination
proof (relation "measure (\<lambda>(s, sep). length s)")
  show "wf (measure (\<lambda>(s, sep). length s))" by simp
next
  fix s :: string and sep :: char
  assume "sep \<in> set s"
  then have "dropWhile (\<lambda>c. c \<noteq> sep) s \<noteq> []" by (induction s) auto
  then have "length (tl (dropWhile (\<lambda>c. c \<noteq> sep) s)) < length (dropWhile (\<lambda>c. c \<noteq> sep) s)"
    by (cases "dropWhile (\<lambda>c. c \<noteq> sep) s") auto
  also have "\<dots> \<le> length s" by (rule length_dropWhile_le)
  finally show "((tl (dropWhile (\<lambda>c. c \<noteq> sep) s), sep), (s, sep)) \<in> measure (\<lambda>(s, sep). length s)"
    by simp
qed

declare strings_Split.simps [simp del]

text \<open>
  \<open>attribute.KeyValue\<close>: a key and a typed value; only integers and strings occur.
  \<open>Key.Int\<close> takes a Go \<open>int\<close>, which holds every \<open>uint32\<close> on a 64-bit platform.
\<close>

datatype Value = IntValue int | StringValue string

type_synonym KeyValue = "string \<times> Value"

definition Key_Int :: "string \<Rightarrow> int \<Rightarrow> KeyValue" where
  "Key_Int k v = (k, IntValue v)"

definition Key_String :: "string \<Rightarrow> string \<Rightarrow> KeyValue" where
  "Key_String k v = (k, StringValue v)"

text \<open>The keys of semconv v1.17.0 that the code uses.\<close>

definition RPCSystemKey :: string where "RPCSystemKey = ''rpc.system''"
definition RPCGRPCStatusCodeKey :: string where "RPCGRPCStatusCodeKey = ''rpc.grpc.status_code''"
definition RPCServiceKey :: string where "RPCServiceKey = ''rpc.service''"
definition RPCMethodKey :: string where "RPCMethodKey = ''rpc.method''"

definition RPCSystemGRPC :: KeyValue where
  "RPCSystemGRPC = Key_String RPCSystemKey ''grpc''"

lemmas semconv_defs =
  RPCSystemKey_def RPCGRPCStatusCodeKey_def RPCServiceKey_def RPCMethodKey_def
  RPCSystemGRPC_def Key_Int_def Key_String_def

definition getAttributes :: "string \<Rightarrow> error option \<Rightarrow> KeyValue list" where
  "getAttributes fullMethodName err =
     (let rpcStatus = getRPCStatus err;
          attr = [];
          attr = attr @ [RPCSystemGRPC];
          attr = attr @ [Key_Int RPCGRPCStatusCodeKey (uint (Code rpcStatus))];
          attr = attr @ [Key_String ''rpc.grpc.status'' (Code_String (Code rpcStatus))];
          parts = strings_Split fullMethodName CHR ''/''
      in if length parts = 3
         then attr @ [Key_String RPCServiceKey (parts ! 1)] @ [Key_String RPCMethodKey (parts ! 2)]
         else attr)"

section \<open>grpcmetrics.go: the correlation record and its context slot\<close>

type_synonym int64 = "64 word"

record rpcInfo =
  fullMethodName :: string
  sentMsgs :: int64
  sentBytes :: int64
  recvMsgs :: int64
  recvBytes :: int64

text \<open>
  A \<open>context.Context\<close> is read only through \<open>Value\<close>: a finite map from keys to
  values. The slot \<open>rpcInfoKey{}\<close> holds a \<open>*rpcInfo\<close>: an address of the store, or
  nil. Values under other keys, and a value of another type, are \<open>OtherValue\<close>.
\<close>

datatype ctx_key = rpcInfoKey | OtherKey string

datatype ctx_value = RPCInfoPtr "nat option" | OtherValue string

type_synonym Context = "ctx_key \<rightharpoonup> ctx_value"

definition setRPCInfo :: "Context \<Rightarrow> nat option \<Rightarrow> Context" where
  "setRPCInfo ctx ri = ctx(rpcInfoKey \<mapsto> RPCInfoPtr ri)"

definition getRPCInfo :: "Context \<Rightarrow> nat option" where
  "getRPCInfo ctx =
     (case ctx rpcInfoKey of
        Some (RPCInfoPtr ri) \<Rightarrow> ri
      | _ \<Rightarrow> None)"

section \<open>The metrics backend (packages metric and instrument)\<close>

text \<open>
  An instrument is what the backend hands out for a creation request: its kind, name and
  unit identify it. A meter is modelled by its answer to a creation request given the
  requests made to the backend before it, so that a backend whose answer depends on what
  was registered earlier is covered; every call is appended to that history.
\<close>

datatype InstrumentKind = Int64CounterKind | Float64HistogramKind | Int64HistogramKind

datatype Instrument = Instrument InstrumentKind string string

type_synonym Request = "InstrumentKind \<times> string \<times> string"

type_synonym Meter = "Request list \<Rightarrow> Request \<Rightarrow> error + Instrument"

type_synonym MeterProvider = "string \<Rightarrow> Meter"

definition create :: "Meter \<Rightarrow> Request \<Rightarrow> Request list \<Rightarrow> (error + Instrument) \<times> Request list" where
  "create meter req hist = (meter hist req, hist @ [req])"

definition Int64Counter :: "Meter \<Rightarrow> string \<Rightarrow> string \<Rightarrow> Request list \<Rightarrow> (error + Instrument) \<times> Request list" where
  "Int64Counter meter name unit = create meter (Int64CounterKind, name, unit)"

definition Float64Histogram :: "Meter \<Rightarrow> string \<Rightarrow> string \<Rightarrow> Request list \<Rightarrow> (error + Instrument) \<times> Request list" where
  "Float64Histogram meter name unit = create meter (Float64HistogramKind, name, unit)"

definition Int64Histogram :: "Meter \<Rightarrow> string \<Rightarrow> string \<Rightarrow> Request list \<Rightarrow> (error + Instrument) \<times> Request list" where
  "Int64Histogram meter name unit = create meter (Int64HistogramKind, name, unit)"

text \<open>
  A recorded value: an \<open>int64\<close>, or the \<open>float64\<close> conversion of an integer (the
  only floating-point value the code builds is \<open>float64(ms)\<close> of a millisecond count).
\<close>

datatype Number = Int64 int64 | Float64OfInt int

datatype Measurement = Measurement Instrument Number "KeyValue list"

section \<open>config.go\<close>

record config =
  meterProvider :: "MeterProvider option"
  instrumentationName :: string
  instrumentSizes :: bool
  instrumentLatency :: bool

text \<open>
  The four options of the package. \<open>apply\<close> is unexported, so these are all the options
  there are (\<open>Option_apply\<close> is the method \<open>apply\<close>).
  \<open>WithMeterProvider\<close> may be given a nil provider.
\<close>

datatype Option =
    WithInstrumentationName string
  | WithMeterProvider "MeterProvider option"
  | WithInstrumentSizes bool
  | WithInstrumentLatency bool

fun Option_apply :: "Option \<Rightarrow> config \<Rightarrow> config" where
  "Option_apply (WithInstrumentationName name) c = c\<lparr>instrumentationName := name\<rparr>"
| "Option_apply (WithMeterProvider p) c = c\<lparr>meterProvider := p\<rparr>"
| "Option_apply (WithInstrumentSizes b) c = c\<lparr>instrumentSizes := b\<rparr>"
| "Option_apply (WithInstrumentLatency b) c = c\<lparr>instrumentLatency := b\<rparr>"

section \<open>grpcmetrics.go: the handler and its construction\<close>

definition DefaultInstrumentationName :: string where
  "DefaultInstrumentationName = ''github.com/mahboubii/grpcmetrics''"

text \<open>
  The instrument fields are interface values: nil (\<open>None\<close>) until assigned.
\<close>

record Handler =
  isClient :: bool
  rpcDuration :: "Instrument option"
  rpcRequestSize :: "Instrument option"
  rpcResponseSize :: "Instrument option"
  rpcRequestsPerRPC :: "Instrument option"
  rpcResponsesPerRPC :: "Instrument option"

text \<open>
  \<open>newHandler\<close>, in two parts. \<open>createInstruments\<close> is its second half (from the first
  \<open>meter.Int64Counter\<close> call to \<open>return h, nil\<close>): the instruments in the order of the
  source, each assigned to its field; the first error ends the construction. \<open>hist\<close> is
  the history of the backend when the construction starts, and the history after it is
  returned too.
\<close>

definition createInstruments ::
  "Meter \<Rightarrow> string \<Rightarrow> config \<Rightarrow> Handler \<Rightarrow> Request list \<Rightarrow> (error + Handler) \<times> Request list" where
  "createInstruments meter prefix c h hist =
     (case Int64Counter meter (prefix @ ''.requests_per_rpc'') ''1'' hist of
        (Inl err, hist) \<Rightarrow> (Inl err, hist)
      | (Inr i, hist) \<Rightarrow>
     let h = h\<lparr>rpcRequestsPerRPC := Some i\<rparr>
     in case Int64Counter meter (prefix @ ''.responses_per_rpc'') ''1'' hist of
        (Inl err, hist) \<Rightarrow> (Inl err, hist)
      | (Inr i, hist) \<Rightarrow>
     let h = h\<lparr>rpcResponsesPerRPC := Some i\<rparr>
     in case (if instrumentLatency c
              then (case Float64Histogram meter (prefix @ ''.duration'') ''ms'' hist of
                      (Inl err, hist) \<Rightarrow> (Inl err, hist)
                    | (Inr i, hist) \<Rightarrow> (Inr (h\<lparr>rpcDuration := Some i\<rparr>), hist))
              else (Inr h, hist)) of
        (Inl err, hist) \<Rightarrow> (Inl err, hist)
      | (Inr h, hist) \<Rightarrow>
     if instrumentSizes c
     then (case Int64Histogram meter (prefix @ ''.request.size'') ''By'' hist of
             (Inl err, hist) \<Rightarrow> (Inl err, hist)
           | (Inr i, hist) \<Rightarrow>
         let h = h\<lparr>rpcRequestSize := Some i\<rparr>
         in case Int64Histogram meter (prefix @ ''.response.size'') ''By'' hist of
             (Inl err, hist) \<Rightarrow> (Inl err, hist)
           | (Inr i, hist) \<Rightarrow> (Inr (h\<lparr>rpcResponseSize := Some i\<rparr>), hist))
     else (Inr h, hist))"

text \<open>
  The first half: the zero \<open>config{}\<close>, the options applied in order, the defaults, the
  meter, the handler with only \<open>isClient\<close> set, the prefix. \<open>globalMP\<close> is what
  \<open>global.MeterProvider()\<close> returns.
\<close>

definition newHandler ::
  "bool \<Rightarrow> Option list \<Rightarrow> MeterProvider \<Rightarrow> Request list \<Rightarrow> (error + Handler) \<times> Request list" where
  "newHandler isClient' options globalMP hist =
     (let c = \<lparr>meterProvider = None, instrumentationName = [],
                instrumentSizes = False, instrumentLatency = False\<rparr>;
          c = foldl (\<lambda>c o'. Option_apply o' c) c options;
          c = (if meterProvider c = None then c\<lparr>meterProvider := Some globalMP\<rparr> else c);
          c = (if instrumentationName c = [] then c\<lparr>instrumentationName := DefaultInstrumentationName\<rparr> else c);
          meter = (case meterProvider c of
                     Some mp \<Rightarrow> mp (instrumentationName c)
                   | None \<Rightarrow> globalMP (instrumentationName c));
          h = \<lparr>isClient = isClient', rpcDuration = None, rpcRequestSize = None,
                rpcResponseSize = None, rpcRequestsPerRPC = None, rpcResponsesPerRPC = None\<rparr>;
          prefix = (if isClient h then ''rpc.client'' else ''rpc.server'')
      in createInstruments meter prefix c h hist)"

definition NewServerHandler :: "Option list \<Rightarrow> MeterProvider \<Rightarrow> Request list \<Rightarrow> (error + Handler) \<times> Request list" where
  "NewServerHandler options = newHandler False options"

definition NewClientHandler :: "Option list \<Rightarrow> MeterProvider \<Rightarrow> Request list \<Rightarrow> (error + Handler) \<times> Request list" where
  "NewClientHandler options = newHandler True options"

section \<open>grpcmetrics.go: the lifecycle callbacks\<close>

text \<open>
  What the callbacks read and write: the store of correlation records (every
  \<open>&rpcInfo{...}\<close> of \<open>TagRPC\<close> takes the next free address), the measurements
  submitted to instruments, in order, the errors given to \<open>otel.Handle\<close>, and the clock
  that \<open>time.Since\<close> reads (nanoseconds).
\<close>

record World =
  heap :: "nat \<Rightarrow> rpcInfo"
  nextAddr :: nat
  measurements :: "Measurement list"
  handled :: "string list"
  clock :: int

text \<open>
  The events of package stats, with the fields the code reads: \<open>Length\<close> of a payload
  (a Go \<open>int\<close>, 64 bits), \<open>BeginTime\<close> and \<open>Error\<close> of \<open>End\<close>. \<open>Unhandled\<close> is a
  value of any other type, with its \<open>%T\<close> and \<open>%v\<close> renderings.
\<close>

datatype RPCStats =
    InHeader | OutHeader | InTrailer | OutTrailer
  | Begin
  | InPayload int64
  | OutPayload int64
  | End int "error option"
  | Unhandled string string

record RPCTagInfo =
  FullMethodName :: string
  FailFast :: bool

text \<open>A method call on a nil interface value panics.\<close>

datatype panic = NilDereference

text \<open>\<open>atomic.AddInt64\<close> on each of the four counters of the record at an address.\<close>

definition AddInt64_recvMsgs :: "nat \<Rightarrow> int64 \<Rightarrow> World \<Rightarrow> World" where
  "AddInt64_recvMsgs ri d w = w\<lparr>heap := (heap w)(ri := (heap w ri)\<lparr>recvMsgs := recvMsgs (heap w ri) + d\<rparr>)\<rparr>"

definition AddInt64_recvBytes :: "nat \<Rightarrow> int64 \<Rightarrow> World \<Rightarrow> World" where
  "AddInt64_recvBytes ri d w = w\<lparr>heap := (heap w)(ri := (heap w ri)\<lparr>recvBytes := recvBytes (heap w ri) + d\<rparr>)\<rparr>"

definition AddInt64_sentMsgs :: "nat \<Rightarrow> int64 \<Rightarrow> World \<Rightarrow> World" where
  "AddInt64_sentMsgs ri d w = w\<lparr>heap := (heap w)(ri := (heap w ri)\<lparr>sentMsgs := sentMsgs (heap w ri) + d\<rparr>)\<rparr>"

definition AddInt64_sentBytes :: "nat \<Rightarrow> int64 \<Rightarrow> World \<Rightarrow> World" where
  "AddInt64_sentBytes ri d w = w\<lparr>heap := (heap w)(ri := (heap w ri)\<lparr>sentBytes := sentBytes (heap w ri) + d\<rparr>)\<rparr>"

text \<open>\<open>Int64Counter.Add\<close> and \<open>Histogram.Record\<close>: the measurement joins the log.\<close>

definition Add :: "Instrument option \<Rightarrow> int64 \<Rightarrow> KeyValue list \<Rightarrow> World \<Rightarrow> panic + World" where
  "Add counter v attrs w =
     (case counter of
        None \<Rightarrow> Inl NilDereference
      | Some i \<Rightarrow> Inr (w\<lparr>measurements := measurements w @ [Measurement i (Int64 v) attrs]\<rparr>))"

definition Record :: "Instrument \<Rightarrow> Number \<Rightarrow> KeyValue list \<Rightarrow> World \<Rightarrow> World" where
  "Record i v attrs w = w\<lparr>measurements := measurements w @ [Measurement i v attrs]\<rparr>"

definition otel_Handle :: "string \<Rightarrow> World \<Rightarrow> World" where
  "otel_Handle msg w = w\<lparr>handled := handled w @ [msg]\<rparr>"

text \<open>
  \<open>time.Since(t)\<close> is the clock minus \<open>t\<close>, saturating at the bounds of a
  \<open>time.Duration\<close>; \<open>Duration.Milliseconds\<close> divides by \<open>1e6\<close>, truncating towards zero.
\<close>

definition time_Since :: "int \<Rightarrow> World \<Rightarrow> int" where
  "time_Since t w = max (- (2 ^ 63)) (min (2 ^ 63 - 1) (clock w - t))"

definition Milliseconds :: "int \<Rightarrow> int" where
  "Milliseconds d = sgn d * (\<bar>d\<bar> div 1000000)"

definition TagConn :: "Handler \<Rightarrow> Context \<Rightarrow> World \<Rightarrow> Context \<times> World" where
  "TagConn h ctx w = (ctx, w)"

definition HandleConn :: "Handler \<Rightarrow> Context \<Rightarrow> World \<Rightarrow> World" where
  "HandleConn h ctx w = w"

definition TagRPC :: "Handler \<Rightarrow> Context \<Rightarrow> RPCTagInfo \<Rightarrow> World \<Rightarrow> Context \<times> World" where
  "TagRPC h ctx info w =
     (let ri = nextAddr w;
          w = w\<lparr>heap := (heap w)(ri := \<lparr>fullMethodName = FullMethodName info, sentMsgs = 0,
                                         sentBytes = 0, recvMsgs = 0, recvBytes = 0\<rparr>),
                nextAddr := Suc (nextAddr w)\<rparr>
      in (setRPCInfo ctx (Some ri), w))"

definition HandleRPC :: "Handler \<Rightarrow> Context \<Rightarrow> RPCStats \<Rightarrow> World \<Rightarrow> panic + World" where
  "HandleRPC h ctx rs w =
     (case getRPCInfo ctx of
        None \<Rightarrow> Inr w
      | Some ri \<Rightarrow>
         (case rs of
            InHeader \<Rightarrow> Inr w
          | OutHeader \<Rightarrow> Inr w
          | InTrailer \<Rightarrow> Inr w
          | OutTrailer \<Rightarrow> Inr w
          | Begin \<Rightarrow> Inr w
          | InPayload len \<Rightarrow>
              (let w = AddInt64_recvMsgs ri 1 w
               in if rpcRequestSize h \<noteq> None then Inr (AddInt64_recvBytes ri len w) else Inr w)
          | OutPayload len \<Rightarrow>
              (let w = AddInt64_sentMsgs ri 1 w
               in if rpcResponseSize h \<noteq> None then Inr (AddInt64_sentBytes ri len w) else Inr w)
          | End beginTime err \<Rightarrow>
              (let attrs = getAttributes (fullMethodName (heap w ri)) err
               in case (if isClient h
                        then (case Add (rpcRequestsPerRPC h) (sentMsgs (heap w ri)) attrs w of
                                Inl p \<Rightarrow> Inl p
                              | Inr w \<Rightarrow> Add (rpcResponsesPerRPC h) (recvMsgs (heap w ri)) attrs w)
                        else (case Add (rpcRequestsPerRPC h) (recvMsgs (heap w ri)) attrs w of
                                Inl p \<Rightarrow> Inl p
                              | Inr w \<Rightarrow> Add (rpcResponsesPerRPC h) (sentMsgs (heap w ri)) attrs w)) of
                    Inl p \<Rightarrow> Inl p
                  | Inr w \<Rightarrow>
                     (let w = (case rpcDuration h of
                                 None \<Rightarrow> w
                               | Some i \<Rightarrow> Record i (Float64OfInt (Milliseconds (time_Since beginTime w))) attrs w);
                          w = (case rpcRequestSize h of
                                 None \<Rightarrow> w
                               | Some i \<Rightarrow>
                                   if isClient h then Record i (Int64 (sentBytes (heap w ri))) attrs w
                                   else Record i (Int64 (recvBytes (heap w ri))) attrs w);
                          w = (case rpcResponseSize h of
                                 None \<Rightarrow> w
                               | Some i \<Rightarrow>
                                   if isClient h then Record i (Int64 (recvBytes (heap w ri))) attrs w
                                   else Record i (Int64 (sentBytes (heap w ri))) attrs w)
                      in Inr w))
          | Unhandled ty data \<Rightarrow>
              Inr (otel_Handle (''received unhandled stats with type ('' @ ty @ '') and data: '' @ data) w)))"

text \<open>
  The transport delivers the events of all attempts to \<open>HandleRPC\<close>, each with its
  context; a panic ends the run. The callbacks change a record by atomic additions only,
  so callbacks running at the same time act as some sequence of them, and the run is
  modelled as that sequence.
\<close>

fun deliver :: "Handler \<Rightarrow> (Context \<times> RPCStats) list \<Rightarrow> World \<Rightarrow> panic + World" where
  "deliver h [] w = Inr w"
| "deliver h ((ctx, rs) # evs) w =
     (case HandleRPC h ctx rs w of Inl p \<Rightarrow> Inl p | Inr w' \<Rightarrow> deliver h evs w')"

section \<open>The shape of a method name, as the specification words it\<close>

text \<open>
  The specification's condition for the service and method attributes, kept apart from
  the code's: the name is \<open>/S/M\<close>, that is, after a leading \<open>/\<close> is stripped it splits
  at \<open>/\<close> into exactly two segments, both non-empty.
\<close>

definition spec_service_method :: "string \<Rightarrow> (string \<times> string) option" where
  "spec_service_method name =
     (case name of
        [] \<Rightarrow> None
      | c # rest \<Rightarrow>
          if c \<noteq> CHR ''/'' then None
          else (case strings_Split rest CHR ''/'' of
                  [S, M] \<Rightarrow> if S \<noteq> [] \<and> M \<noteq> [] then Some (S, M) else None
                | _ \<Rightarrow> None))"

section \<open>Backends and a starting state for concrete runs\<close>

text \<open>
  \<open>metric.NewNoopMeterProvider()\<close> of the tests accepts every request. The strict
  provider rejects a name that was registered before with another kind.
\<close>

definition noopMeterProvider :: MeterProvider where
  "noopMeterProvider scope hist req = (case req of (k, n, u) \<Rightarrow> Inr (Instrument k n u))"

definition strictMeterProvider :: MeterProvider where
  "strictMeterProvider scope hist req =
     (case req of (k, n, u) \<Rightarrow>
        if list_ex (\<lambda>(k', n', u'). n' = n \<and> k' \<noteq> k) hist
        then Inl (OpaqueError (''instrument kind conflict: '' @ n))
        else Inr (Instrument k n u))"

text \<open>
  The handlers that construction gives over the accepting backend: a server with every
  histogram, a client with every histogram, a server with the default options.
\<close>

definition fullServerHandler :: Handler where
  "fullServerHandler =
     \<lparr>isClient = False,
      rpcDuration = Some (Instrument Float64HistogramKind ''rpc.server.duration'' ''ms''),
      rpcRequestSize = Some (Instrument Int64HistogramKind ''rpc.server.request.size'' ''By''),
      rpcResponseSize = Some (Instrument Int64HistogramKind ''rpc.server.response.size'' ''By''),
      rpcRequestsPerRPC = Some (Instrument Int64CounterKind ''rpc.server.requests_per_rpc'' ''1''),
      rpcResponsesPerRPC = Some (Instrument Int64CounterKind ''rpc.server.responses_per_rpc'' ''1'')\<rparr>"

definition fullClientHandler :: Handler where
  "fullClientHandler =
     \<lparr>isClient = True,
      rpcDuration = Some (Instrument Float64HistogramKind ''rpc.client.duration'' ''ms''),
      rpcRequestSize = Some (Instrument Int64HistogramKind ''rpc.client.request.size'' ''By''),
      rpcResponseSize = Some (Instrument Int64HistogramKind ''rpc.client.response.size'' ''By''),
      rpcRequestsPerRPC = Some (Instrument Int64CounterKind ''rpc.client.requests_per_rpc'' ''1''),
      rpcResponsesPerRPC = Some (Instrument Int64CounterKind ''rpc.client.responses_per_rpc'' ''1'')\<rparr>"

definition defaultServerHandler :: Handler where
  "defaultServerHandler =
     \<lparr>isClient = False, rpcDuration = None, rpcRequestSize = None, rpcResponseSize = None,
      rpcRequestsPerRPC = Some (Instrument Int64CounterKind ''rpc.server.requests_per_rpc'' ''1''),
      rpcResponsesPerRPC = Some (Instrument Int64CounterKind ''rpc.server.responses_per_rpc'' ''1'')\<rparr>"

definition emptyWorld :: World where
  "emptyWorld =
     \<lparr>heap = (\<lambda>a. \<lparr>fullMethodName = [], sentMsgs = 0, sentBytes = 0, recvMsgs = 0, recvBytes = 0\<rparr>),
      nextAddr = 0, measurements = [], handled = [], clock = 0\<rparr>"

section \<open>The events of one attempt\<close>

text \<open>
  For stating what a run delivers to one record: the payload events that reach the record
  at an address, counted, and their lengths, summed as \<open>int64\<close>.
\<close>

fun isInPayload :: "RPCStats \<Rightarrow> bool" where
  "isInPayload (InPayload len) = True"
| "isInPayload rs = False"

fun isOutPayload :: "RPCStats \<Rightarrow> bool" where
  "isOutPayload (OutPayload len) = True"
| "isOutPayload rs = False"

definition received :: "nat \<Rightarrow> (Context \<times> RPCStats) list \<Rightarrow> nat" where
  "received ri evs = length (filter (\<lambda>(ctx, rs). getRPCInfo ctx = Some ri \<and> isInPayload rs) evs)"

definition sent :: "nat \<Rightarrow> (Context \<times> RPCStats) list \<Rightarrow> nat" where
  "sent ri evs = length (filter (\<lambda>(ctx, rs). getRPCInfo ctx = Some ri \<and> isOutPayload rs) evs)"

fun payloadLength :: "RPCStats \<Rightarrow> int64" where
  "payloadLength (InPayload len) = len"
| "payloadLength (OutPayload len) = len"
| "payloadLength rs = 0"

definition receivedBytes :: "nat \<Rightarrow> (Context \<times> RPCStats) list \<Rightarrow> int64" where
  "receivedBytes ri evs =
     sum_list (map (\<lambda>(ctx, rs). payloadLength rs)
                   (filter (\<lambda>(ctx, rs). getRPCInfo ctx = Some ri \<and> isInPayload rs) evs))"

definition sentBytesOf :: "nat \<Rightarrow> (Context \<times> RPCStats) list \<Rightarrow> int64" where
  "sentBytesOf ri evs =
     sum_list (map (\<lambda>(ctx, rs). payloadLength rs)
                   (filter (\<lambda>(ctx, rs). getRPCInfo ctx = Some ri \<and> isOutPayload rs) evs))"

text \<open>
  The measurements of the \<open>End\<close> case in the order of the source, for a handler whose two
  counters are \<open>rq\<close> and \<open>rp\<close> and a record \<open>r\<close>.
\<close>

definition endMeasurements :: "Handler \<Rightarrow> rpcInfo \<Rightarrow> int \<Rightarrow> error option \<Rightarrow> World \<Rightarrow> Instrument \<Rightarrow> Instrument \<Rightarrow> Measurement list" where
  "endMeasurements h r bt err w rq rp =
     (let attrs = getAttributes (fullMethodName r) err
      in [Measurement rq (Int64 (if isClient h then sentMsgs r else recvMsgs r)) attrs,
          Measurement rp (Int64 (if isClient h then recvMsgs r else sentMsgs r)) attrs]
         @ (case rpcDuration h of None \<Rightarrow> []
            | Some i \<Rightarrow> [Measurement i (Float64OfInt (Milliseconds (time_Since bt w))) attrs])
         @ (case rpcRequestSize h of None \<Rightarrow> []
            | Some i \<Rightarrow> [Measurement i (Int64 (if isClient h then sentBytes r else recvBytes r)) attrs])
         @ (case rpcResponseSize h of None \<Rightarrow> []
            | Some i \<Rightarrow> [Measurement i (Int64 (if isClient h then recvBytes r else sentBytes r)) attrs]))"

section \<open>What a construction asks of the backend\<close>

text \<open>
  For stating the result of \<open>newHandler\<close>: the configuration after the options, the meter
  it takes, the creation requests in the order of the source, a run of requests that stops
  at the first error, and the handler with the instruments assigned.
\<close>

definition configured :: "Option list \<Rightarrow> config" where
  "configured options =
     foldl (\<lambda>c o'. Option_apply o' c)
       \<lparr>meterProvider = None, instrumentationName = [], instrumentSizes = False, instrumentLatency = False\<rparr>
       options"

definition meterOf :: "Option list \<Rightarrow> MeterProvider \<Rightarrow> Meter" where
  "meterOf options globalMP =
     (case meterProvider (configured options) of None \<Rightarrow> globalMP | Some mp \<Rightarrow> mp)
       (if instrumentationName (configured options) = [] then DefaultInstrumentationName
        else instrumentationName (configured options))"

definition requests :: "string \<Rightarrow> config \<Rightarrow> Request list" where
  "requests prefix c =
     [(Int64CounterKind, prefix @ ''.requests_per_rpc'', ''1''),
      (Int64CounterKind, prefix @ ''.responses_per_rpc'', ''1'')]
     @ (if instrumentLatency c then [(Float64HistogramKind, prefix @ ''.duration'', ''ms'')] else [])
     @ (if instrumentSizes c
        then [(Int64HistogramKind, prefix @ ''.request.size'', ''By''),
              (Int64HistogramKind, prefix @ ''.response.size'', ''By'')] else [])"

definition requested :: "bool \<Rightarrow> Option list \<Rightarrow> Request list" where
  "requested isClient' options =
     requests (if isClient' then ''rpc.client'' else ''rpc.server'') (configured options)"

fun createAll :: "Meter \<Rightarrow> Request list \<Rightarrow> Request list \<Rightarrow> (error + Instrument list) \<times> Request list" where
  "createAll m [] hist = (Inr [], hist)"
| "createAll m (r # rs) hist =
     (case create m r hist of
        (Inl e, hist') \<Rightarrow> (Inl e, hist')
      | (Inr i, hist') \<Rightarrow>
          (case createAll m rs hist' of
             (Inl e, hist'') \<Rightarrow> (Inl e, hist'')
           | (Inr is, hist'') \<Rightarrow> (Inr (i # is), hist'')))"

definition assigned :: "config \<Rightarrow> Handler \<Rightarrow> Instrument list \<Rightarrow> Handler" where
  "assigned c h is =
     h\<lparr>rpcRequestsPerRPC := Some (is ! 0),
       rpcResponsesPerRPC := Some (is ! 1),
       rpcDuration := (if instrumentLatency c then Some (is ! 2) else rpcDuration h),
       rpcRequestSize :=
         (if instrumentSizes c then Some (is ! (if instrumentLatency c then 3 else 2))
          else rpcRequestSize h),
       rpcResponseSize :=
         (if instrumentSizes c then Some (is ! (if instrumentLatency c then 4 else 3))
          else rpcResponseSize h)\<rparr>"

definition worldWith :: "rpcInfo \<Rightarrow> World" where
  "worldWith r = emptyWorld\<lparr>heap := (heap emptyWorld)(0 := r), nextAddr := 1\<rparr>"

section \<open>Facts about \<open>strings_Split\<close>\<close>

lemma strings_Split_Nil: "strings_Split [] sep = [[]]"
  by (simp add: strings_Split.simps)

lemma strings_Split_Cons:
  "strings_Split (x # xs) sep =
     (if x = sep then [] # strings_Split xs sep
      else (x # hd (strings_Split xs sep)) # tl (strings_Split xs sep))"
  by (subst strings_Split.simps, subst (2) strings_Split.simps, subst (3) strings_Split.simps) auto

lemma length_strings_Split: "length (strings_Split s sep) = Suc (count_list s sep)"
  by (induction s) (auto simp: strings_Split_Nil strings_Split_Cons)

lemma strings_Split_not_Nil: "strings_Split s sep \<noteq> []"
  using length_strings_Split [of s sep] by auto

lemma strings_Split_segments: "p \<in> set (strings_Split s sep) \<Longrightarrow> sep \<notin> set p"
proof (induction s arbitrary: p)
  case Nil
  then show ?case by (simp add: strings_Split_Nil)
next
  case (Cons x xs)
  obtain q qs where r: "strings_Split xs sep = q # qs"
    using strings_Split_not_Nil [of xs sep] by (cases "strings_Split xs sep") auto
  show ?case
  proof (cases "x = sep")
    case True
    with Cons show ?thesis by (auto simp: strings_Split_Cons)
  next
    case False
    with Cons.prems r have "p = x # q \<or> p \<in> set qs" by (auto simp: strings_Split_Cons)
    then show ?thesis
    proof
      assume "p = x # q"
      moreover have "sep \<notin> set q" using Cons.IH [of q] r by simp
      ultimately show ?thesis using False by auto
    next
      assume "p \<in> set qs"
      then show ?thesis using Cons.IH [of p] r by simp
    qed
  qed
qed

lemma strings_Split_join:
  "concat (map (\<lambda>p. sep # p) (strings_Split s sep)) = sep # s"
proof (induction s)
  case Nil
  then show ?case by (simp add: strings_Split_Nil)
next
  case (Cons x xs)
  obtain q qs where r: "strings_Split xs sep = q # qs"
    using strings_Split_not_Nil [of xs sep] by (cases "strings_Split xs sep") auto
  with Cons show ?case by (auto simp: strings_Split_Cons)
qed

lemma strings_Split_three:
  assumes "count_list n sep = 2"
  shows "\<exists>A S M. n = A @ sep # S @ sep # M \<and> sep \<notin> set A \<and> sep \<notin> set S \<and> sep \<notin> set M
           \<and> strings_Split n sep = [A, S, M]"
proof -
  have "length (strings_Split n sep) = 3"
    using assms by (simp add: length_strings_Split)
  then obtain A S M where p: "strings_Split n sep = [A, S, M]"
    by (auto simp: length_Suc_conv numeral_3_eq_3)
  have "n = A @ sep # S @ sep # M"
    using strings_Split_join [of sep n] p by simp
  moreover have "sep \<notin> set A" "sep \<notin> set S" "sep \<notin> set M"
    using strings_Split_segments [of _ n sep] p by auto
  ultimately show ?thesis using p by blast
qed

lemma spec_service_method_parts:
  assumes "spec_service_method n = Some (S, M)"
  shows "strings_Split n CHR ''/'' = [[], S, M]"
  using assms
  by (auto simp: spec_service_method_def strings_Split_Cons split: list.splits if_splits)

section \<open>Attribute derivation\<close>

text \<open>
  Claim C2, as amended. The derived attributes are the three status attributes followed
  by the service and method attributes exactly when the method name has exactly two
  \<open>/\<close> bytes, that is, when it is \<open>A/S/M\<close> with \<open>A\<close>, \<open>S\<close> and \<open>M\<close> free of \<open>/\<close>
  (each possibly empty); they are then service \<open>S\<close> and method \<open>M\<close>. Every name of the
  specification's shape \<open>/S/M\<close> (both segments non-empty) is such a name, with its own
  \<open>S\<close> and \<open>M\<close>. For any other name the two attributes are absent; the derivation is a
  total function and never fails.
\<close>

theorem getAttributes_service_method:
  "getAttributes n e =
     [RPCSystemGRPC,
      Key_Int RPCGRPCStatusCodeKey (uint (Code (getRPCStatus e))),
      Key_String ''rpc.grpc.status'' (Code_String (Code (getRPCStatus e)))]
     @ (if count_list n CHR ''/'' = 2
        then [Key_String RPCServiceKey (strings_Split n CHR ''/'' ! 1),
              Key_String RPCMethodKey (strings_Split n CHR ''/'' ! 2)]
        else [])
   \<and> (count_list n CHR ''/'' = 2 \<longrightarrow>
        (\<exists>A S M. n = A @ CHR ''/'' # S @ CHR ''/'' # M
           \<and> CHR ''/'' \<notin> set A \<and> CHR ''/'' \<notin> set S \<and> CHR ''/'' \<notin> set M
           \<and> strings_Split n CHR ''/'' ! 1 = S \<and> strings_Split n CHR ''/'' ! 2 = M))
   \<and> (\<forall>S M. spec_service_method n = Some (S, M) \<longrightarrow>
        count_list n CHR ''/'' = 2
        \<and> strings_Split n CHR ''/'' ! 1 = S \<and> strings_Split n CHR ''/'' ! 2 = M)"
proof (intro conjI allI impI)
  show "getAttributes n e =
     [RPCSystemGRPC,
      Key_Int RPCGRPCStatusCodeKey (uint (Code (getRPCStatus e))),
      Key_String ''rpc.grpc.status'' (Code_String (Code (getRPCStatus e)))]
     @ (if count_list n CHR ''/'' = 2
        then [Key_String RPCServiceKey (strings_Split n CHR ''/'' ! 1),
              Key_String RPCMethodKey (strings_Split n CHR ''/'' ! 2)]
        else [])"
    by (simp add: getAttributes_def Let_def length_strings_Split)
next
  assume "count_list n CHR ''/'' = 2"
  from strings_Split_three [OF this]
  show "\<exists>A S M. n = A @ CHR ''/'' # S @ CHR ''/'' # M
           \<and> CHR ''/'' \<notin> set A \<and> CHR ''/'' \<notin> set S \<and> CHR ''/'' \<notin> set M
           \<and> strings_Split n CHR ''/'' ! 1 = S \<and> strings_Split n CHR ''/'' ! 2 = M"
    by fastforce
next
  fix S M assume a: "spec_service_method n = Some (S, M)"
  have p: "strings_Split n CHR ''/'' = [[], S, M]" by (rule spec_service_method_parts [OF a])
  have "length (strings_Split n CHR ''/'') = 3" by (simp add: p)
  then show "count_list n CHR ''/'' = 2" by (simp add: length_strings_Split)
  show "strings_Split n CHR ''/'' ! 1 = S" by (simp add: p)
  show "strings_Split n CHR ''/'' ! 2 = M" by (simp add: p)
qed

theorem getAttributes_service_method_witness:
  "getAttributes ''/product.Products/ListTags'' None =
     [(''rpc.system'', StringValue ''grpc''), (''rpc.grpc.status_code'', IntValue 0),
      (''rpc.grpc.status'', StringValue ''OK''),
      (''rpc.service'', StringValue ''product.Products''), (''rpc.method'', StringValue ''ListTags'')]
   \<and> spec_service_method ''/product.Products/ListTags'' = Some (''product.Products'', ''ListTags'')
   \<and> getAttributes ''method'' None =
     [(''rpc.system'', StringValue ''grpc''), (''rpc.grpc.status_code'', IntValue 0),
      (''rpc.grpc.status'', StringValue ''OK'')]"
proof -
  have 1: "count_list ''/product.Products/ListTags'' CHR ''/'' = 2" by code_simp
  have 2: "count_list ''method'' CHR ''/'' \<noteq> 2" by code_simp
  have 3: "strings_Split ''/product.Products/ListTags'' CHR ''/'' = [[], ''product.Products'', ''ListTags'']"
    by code_simp
  have 4: "spec_service_method ''/product.Products/ListTags'' = Some (''product.Products'', ''ListTags'')"
    by code_simp
  have 5: "Code_String (Code (getRPCStatus None)) = ''OK''" "uint (Code (getRPCStatus None)) = 0"
    by (simp_all add: getRPCStatus_def grpcStatusOK_def status_New_def Code_String_def codes_defs)
  show ?thesis
    using getAttributes_service_method [of "''/product.Products/ListTags''" None]
      getAttributes_service_method [of "''method''" None]
    by (simp only: 1 2 3 4 5 semconv_defs) simp
qed

text \<open>
  Claim C2 as stated fails: \<open>//\<close> and \<open>a/b/c\<close> do not have the shape \<open>/S/M\<close> with
  non-empty segments, and the service and method attributes are derived all the same.
\<close>

theorem getAttributes_shape_counterexample:
  "spec_service_method ''//'' = None
   \<and> getAttributes ''//'' None =
     [(''rpc.system'', StringValue ''grpc''), (''rpc.grpc.status_code'', IntValue 0),
      (''rpc.grpc.status'', StringValue ''OK''),
      (''rpc.service'', StringValue ''''), (''rpc.method'', StringValue '''')]
   \<and> spec_service_method ''a/b/c'' = None
   \<and> getAttributes ''a/b/c'' None =
     [(''rpc.system'', StringValue ''grpc''), (''rpc.grpc.status_code'', IntValue 0),
      (''rpc.grpc.status'', StringValue ''OK''),
      (''rpc.service'', StringValue ''b''), (''rpc.method'', StringValue ''c'')]"
  by code_simp

text \<open>
  Claim C3. Status derivation: the nil error gives the canonical OK status, of code 0; an
  error carrying a status gives exactly that status, code and message; any other error
  gives the code Internal (13) and the error's text as the message.
\<close>

theorem getRPCStatus_cases:
  "getRPCStatus None = \<lparr>Code = 0, Message = ''OK''\<rparr>
   \<and> getRPCStatus None = status_New codes_OK ''OK''
   \<and> getRPCStatus (Some (StatusError s)) = s
   \<and> getRPCStatus (Some (OpaqueError msg)) = \<lparr>Code = 13, Message = msg\<rparr>
   \<and> getRPCStatus (Some (OpaqueError msg)) = status_New codes_Internal (Error (OpaqueError msg))
   \<and> Code_String (Code (getRPCStatus (Some (OpaqueError msg)))) = ''Internal''"
  by (simp add: getRPCStatus_def grpcStatusOK_def status_New_def codes_defs Code_String_def)

text \<open>
  Claim C4, as amended. An error carrying the status code NotFound derives the numeric
  status-code attribute 5, the value of \<open>codes.NotFound\<close>, and the status-name
  attribute NotFound, for every method name and message.
\<close>

theorem getAttributes_NotFound:
  "take 3 (getAttributes n (Some (StatusError (status_New codes_NotFound msg)))) =
     [(''rpc.system'', StringValue ''grpc''), (''rpc.grpc.status_code'', IntValue 5),
      (''rpc.grpc.status'', StringValue ''NotFound'')]
   \<and> map_of (getAttributes n (Some (StatusError (status_New codes_NotFound msg)))) ''rpc.grpc.status_code''
       = Some (IntValue 5)
   \<and> map_of (getAttributes n (Some (StatusError (status_New codes_NotFound msg)))) ''rpc.grpc.status''
       = Some (StringValue ''NotFound'')"
  by (simp add: getAttributes_def Let_def semconv_defs getRPCStatus_def status_New_def
      Code_String_def codes_defs)

text \<open>
  Claim C4 as stated fails: the numeric status-code attribute of a NotFound error is not 3
  (3 is \<open>codes.InvalidArgument\<close>).
\<close>

theorem getAttributes_NotFound_counterexample:
  "map_of (getAttributes ''/testserver.TestsService/Error''
             (Some (StatusError (status_New codes_NotFound ''error'')))) ''rpc.grpc.status_code''
     \<noteq> Some (IntValue 3)"
  by (simp add: getAttributes_def Let_def semconv_defs getRPCStatus_def status_New_def
      Code_String_def codes_defs)

section \<open>The dispatcher\<close>

lemma getRPCInfo_setRPCInfo: "getRPCInfo (setRPCInfo ctx ri) = ri"
  by (simp add: getRPCInfo_def setRPCInfo_def)

lemma getRPCInfo_empty: "getRPCInfo Map.empty = None"
  by (simp add: getRPCInfo_def)

text \<open>
  Claim C6. An event of any kind delivered with a context that carries no correlation
  record (no value in the slot, a value of another type, or a nil pointer) changes
  nothing: no counter of any record, no measurement, no diagnostic; the call returns
  normally.
\<close>

theorem HandleRPC_without_record:
  "getRPCInfo ctx = None \<Longrightarrow> HandleRPC h ctx rs w = Inr w"
  by (simp add: HandleRPC_def)

theorem HandleRPC_without_record_witness:
  "getRPCInfo Map.empty = None
   \<and> HandleRPC fullServerHandler Map.empty (End 0 (Some (OpaqueError ''x''))) emptyWorld = Inr emptyWorld
   \<and> HandleRPC fullServerHandler Map.empty (InPayload 4) emptyWorld = Inr emptyWorld
   \<and> HandleRPC fullClientHandler Map.empty (Unhandled ''T'' ''v'') emptyWorld = Inr emptyWorld
   \<and> HandleRPC fullClientHandler [OtherKey ''k'' \<mapsto> OtherValue ''v''] (OutPayload 4) emptyWorld
       = Inr emptyWorld"
  using HandleRPC_without_record [of Map.empty]
    HandleRPC_without_record [of "[OtherKey ''k'' \<mapsto> OtherValue ''v'']"]
  by (simp add: getRPCInfo_def)

text \<open>
  Claim C9. A header or trailer event, inbound or outbound, and a begin event, delivered
  with a correlation record attached, leave the whole state as it is: every field of
  every record, and the log of measurements.
\<close>

theorem HandleRPC_headers_trailers_begin:
  "getRPCInfo ctx = Some ri \<Longrightarrow> rs \<in> {InHeader, OutHeader, InTrailer, OutTrailer, Begin} \<Longrightarrow>
   HandleRPC h ctx rs w = Inr w"
  by (auto simp: HandleRPC_def)

theorem HandleRPC_headers_trailers_begin_witness:
  "getRPCInfo (setRPCInfo Map.empty (Some 0)) = Some 0
   \<and> HandleRPC fullServerHandler (setRPCInfo Map.empty (Some 0)) InHeader emptyWorld = Inr emptyWorld
   \<and> HandleRPC fullServerHandler (setRPCInfo Map.empty (Some 0)) OutHeader emptyWorld = Inr emptyWorld
   \<and> HandleRPC fullServerHandler (setRPCInfo Map.empty (Some 0)) InTrailer emptyWorld = Inr emptyWorld
   \<and> HandleRPC fullServerHandler (setRPCInfo Map.empty (Some 0)) OutTrailer emptyWorld = Inr emptyWorld
   \<and> HandleRPC fullServerHandler (setRPCInfo Map.empty (Some 0)) Begin emptyWorld = Inr emptyWorld"
  using HandleRPC_headers_trailers_begin [of "setRPCInfo Map.empty (Some 0)" 0]
  by (simp add: getRPCInfo_setRPCInfo)

lemma HandleRPC_End:
  assumes "rpcRequestsPerRPC h = Some rq" "rpcResponsesPerRPC h = Some rp" "getRPCInfo ctx = Some ri"
  shows "HandleRPC h ctx (End bt err) w =
           Inr (w\<lparr>measurements := measurements w @ endMeasurements h (heap w ri) bt err w rq rp\<rparr>)"
  using assms
  by (simp add: HandleRPC_def Add_def Record_def endMeasurements_def Let_def time_Since_def
      split: option.splits)


lemma HandleRPC_step:
  assumes "rpcRequestsPerRPC h = Some rq" "rpcResponsesPerRPC h = Some rp"
  shows "\<exists>w'. HandleRPC h ctx rs w = Inr w'
           \<and> fullMethodName (heap w' a) = fullMethodName (heap w a)
           \<and> recvMsgs (heap w' a) = recvMsgs (heap w a) + of_nat (received a [(ctx, rs)])
           \<and> sentMsgs (heap w' a) = sentMsgs (heap w a) + of_nat (sent a [(ctx, rs)])
           \<and> recvBytes (heap w' a) =
               recvBytes (heap w a) + (if rpcRequestSize h = None then 0 else receivedBytes a [(ctx, rs)])
           \<and> sentBytes (heap w' a) =
               sentBytes (heap w a) + (if rpcResponseSize h = None then 0 else sentBytesOf a [(ctx, rs)])"
proof (cases "getRPCInfo ctx")
  case None
  then show ?thesis
    by (simp add: HandleRPC_def received_def sent_def receivedBytes_def sentBytesOf_def)
next
  case (Some ri)
  show ?thesis
  proof (cases rs)
    case (End bt err)
    show ?thesis
      unfolding End HandleRPC_End [OF assms Some]
      by (simp add: received_def sent_def receivedBytes_def sentBytesOf_def)
  qed (simp_all add: Some HandleRPC_def received_def sent_def receivedBytes_def sentBytesOf_def
      AddInt64_recvMsgs_def AddInt64_recvBytes_def AddInt64_sentMsgs_def AddInt64_sentBytes_def
      otel_Handle_def Let_def)
qed

lemma received_Cons: "received a (ev # evs) = received a [ev] + received a evs"
  by (simp add: received_def)

lemma sent_Cons: "sent a (ev # evs) = sent a [ev] + sent a evs"
  by (simp add: sent_def)

lemma receivedBytes_Cons: "receivedBytes a (ev # evs) = receivedBytes a [ev] + receivedBytes a evs"
  by (simp add: receivedBytes_def)

lemma sentBytesOf_Cons: "sentBytesOf a (ev # evs) = sentBytesOf a [ev] + sentBytesOf a evs"
  by (simp add: sentBytesOf_def)

lemma deliver_counters:
  assumes "rpcRequestsPerRPC h = Some rq" "rpcResponsesPerRPC h = Some rp"
  shows "\<exists>w'. deliver h evs w = Inr w'
           \<and> fullMethodName (heap w' a) = fullMethodName (heap w a)
           \<and> recvMsgs (heap w' a) = recvMsgs (heap w a) + of_nat (received a evs)
           \<and> sentMsgs (heap w' a) = sentMsgs (heap w a) + of_nat (sent a evs)
           \<and> recvBytes (heap w' a) =
               recvBytes (heap w a) + (if rpcRequestSize h = None then 0 else receivedBytes a evs)
           \<and> sentBytes (heap w' a) =
               sentBytes (heap w a) + (if rpcResponseSize h = None then 0 else sentBytesOf a evs)"
proof (induction evs arbitrary: w)
  case Nil
  then show ?case
    by (simp add: received_def sent_def receivedBytes_def sentBytesOf_def)
next
  case (Cons ev evs)
  obtain ctx rs where ev: "ev = (ctx, rs)" by (cases ev)
  from HandleRPC_step [OF assms, of ctx rs w a]
  obtain w1 where 1: "HandleRPC h ctx rs w = Inr w1"
    and f1: "fullMethodName (heap w1 a) = fullMethodName (heap w a)"
    and r1: "recvMsgs (heap w1 a) = recvMsgs (heap w a) + of_nat (received a [(ctx, rs)])"
    and s1: "sentMsgs (heap w1 a) = sentMsgs (heap w a) + of_nat (sent a [(ctx, rs)])"
    and rb1: "recvBytes (heap w1 a) =
               recvBytes (heap w a) + (if rpcRequestSize h = None then 0 else receivedBytes a [(ctx, rs)])"
    and sb1: "sentBytes (heap w1 a) =
               sentBytes (heap w a) + (if rpcResponseSize h = None then 0 else sentBytesOf a [(ctx, rs)])"
    by blast
  from Cons.IH [of w1]
  obtain w2 where 2: "deliver h evs w1 = Inr w2"
    and f2: "fullMethodName (heap w2 a) = fullMethodName (heap w1 a)"
    and r2: "recvMsgs (heap w2 a) = recvMsgs (heap w1 a) + of_nat (received a evs)"
    and s2: "sentMsgs (heap w2 a) = sentMsgs (heap w1 a) + of_nat (sent a evs)"
    and rb2: "recvBytes (heap w2 a) =
               recvBytes (heap w1 a) + (if rpcRequestSize h = None then 0 else receivedBytes a evs)"
    and sb2: "sentBytes (heap w2 a) =
               sentBytes (heap w1 a) + (if rpcResponseSize h = None then 0 else sentBytesOf a evs)"
    by blast
  have "deliver h (ev # evs) w = Inr w2" by (simp add: ev 1 2)
  moreover have "fullMethodName (heap w2 a) = fullMethodName (heap w a)" by (simp add: f1 f2)
  moreover have "recvMsgs (heap w2 a) = recvMsgs (heap w a) + of_nat (received a (ev # evs))"
    by (simp add: r2 r1 ev received_Cons [of a "(ctx, rs)" evs])
  moreover have "sentMsgs (heap w2 a) = sentMsgs (heap w a) + of_nat (sent a (ev # evs))"
    by (simp add: s2 s1 ev sent_Cons [of a "(ctx, rs)" evs])
  moreover have "recvBytes (heap w2 a) =
               recvBytes (heap w a) + (if rpcRequestSize h = None then 0 else receivedBytes a (ev # evs))"
    by (simp add: rb2 rb1 ev receivedBytes_Cons [of a "(ctx, rs)" evs])
  moreover have "sentBytes (heap w2 a) =
               sentBytes (heap w a) + (if rpcResponseSize h = None then 0 else sentBytesOf a (ev # evs))"
    by (simp add: sb2 sb1 ev sentBytesOf_Cons [of a "(ctx, rs)" evs])
  ultimately show ?case by blast
qed

lemma TagRPC_fresh:
  "getRPCInfo (fst (TagRPC h ctx0 info w0)) = Some (nextAddr w0)
   \<and> heap (snd (TagRPC h ctx0 info w0)) (nextAddr w0) =
       \<lparr>fullMethodName = FullMethodName info, sentMsgs = 0, sentBytes = 0, recvMsgs = 0, recvBytes = 0\<rparr>"
  by (simp add: TagRPC_def Let_def getRPCInfo_def setRPCInfo_def)

lemma HandleRPC_InPayload:
  "getRPCInfo ctx = Some ri \<Longrightarrow>
   HandleRPC h ctx (InPayload len) w =
     Inr (w\<lparr>heap := (heap w)(ri := (heap w ri)
            \<lparr>recvMsgs := recvMsgs (heap w ri) + 1,
             recvBytes := recvBytes (heap w ri) + (if rpcRequestSize h \<noteq> None then len else 0)\<rparr>)\<rparr>)"
  by (simp add: HandleRPC_def Let_def AddInt64_recvMsgs_def AddInt64_recvBytes_def)

lemma HandleRPC_OutPayload:
  "getRPCInfo ctx = Some ri \<Longrightarrow>
   HandleRPC h ctx (OutPayload len) w =
     Inr (w\<lparr>heap := (heap w)(ri := (heap w ri)
            \<lparr>sentMsgs := sentMsgs (heap w ri) + 1,
             sentBytes := sentBytes (heap w ri) + (if rpcResponseSize h \<noteq> None then len else 0)\<rparr>)\<rparr>)"
  by (simp add: HandleRPC_def Let_def AddInt64_sentMsgs_def AddInt64_sentBytes_def)

lemma HandleRPC_End_counts:
  assumes "rpcRequestsPerRPC h = Some rq" and "rpcResponsesPerRPC h = Some rp"
    and "getRPCInfo ctx = Some ri"
  shows "\<exists>w' rest.
           HandleRPC h ctx (End bt err) w = Inr w'
         \<and> measurements w' = measurements w @
             [Measurement rq (Int64 (if isClient h then sentMsgs (heap w ri) else recvMsgs (heap w ri)))
                (getAttributes (fullMethodName (heap w ri)) err),
              Measurement rp (Int64 (if isClient h then recvMsgs (heap w ri) else sentMsgs (heap w ri)))
                (getAttributes (fullMethodName (heap w ri)) err)] @ rest
         \<and> heap w' = heap w"
  unfolding HandleRPC_End [OF assms]
  by (simp add: endMeasurements_def Let_def)

lemma HandleRPC_End_sizes:
  assumes "rpcRequestsPerRPC h = Some rq" and "rpcResponsesPerRPC h = Some rp"
    and "rpcRequestSize h = Some qs" and "rpcResponseSize h = Some ps"
    and "getRPCInfo ctx = Some ri"
  shows "\<exists>w' before.
           HandleRPC h ctx (End bt err) w = Inr w'
         \<and> measurements w' = measurements w @ before @
             [Measurement qs (Int64 (if isClient h then sentBytes (heap w ri) else recvBytes (heap w ri)))
                (getAttributes (fullMethodName (heap w ri)) err),
              Measurement ps (Int64 (if isClient h then recvBytes (heap w ri) else sentBytes (heap w ri)))
                (getAttributes (fullMethodName (heap w ri)) err)]"
proof -
  let ?attrs = "getAttributes (fullMethodName (heap w ri)) err"
  let ?before = "[Measurement rq (Int64 (if isClient h then sentMsgs (heap w ri) else recvMsgs (heap w ri))) ?attrs,
          Measurement rp (Int64 (if isClient h then recvMsgs (heap w ri) else sentMsgs (heap w ri))) ?attrs]
         @ (case rpcDuration h of None \<Rightarrow> []
            | Some i \<Rightarrow> [Measurement i (Float64OfInt (Milliseconds (time_Since bt w))) ?attrs])"
  let ?w' = "w\<lparr>measurements := measurements w @ endMeasurements h (heap w ri) bt err w rq rp\<rparr>"
  have e: "endMeasurements h (heap w ri) bt err w rq rp = ?before @
             [Measurement qs (Int64 (if isClient h then sentBytes (heap w ri) else recvBytes (heap w ri))) ?attrs,
              Measurement ps (Int64 (if isClient h then recvBytes (heap w ri) else sentBytes (heap w ri))) ?attrs]"
    by (simp add: endMeasurements_def Let_def assms)
  have 1: "HandleRPC h ctx (End bt err) w = Inr ?w'"
    by (rule HandleRPC_End [OF assms(1,2,5)])
  have 2: "measurements ?w' = measurements w @ ?before @
             [Measurement qs (Int64 (if isClient h then sentBytes (heap w ri) else recvBytes (heap w ri))) ?attrs,
              Measurement ps (Int64 (if isClient h then recvBytes (heap w ri) else sentBytes (heap w ri))) ?attrs]"
    by (simp add: e)
  from 1 2 show ?thesis by blast
qed

text \<open>
  Claim C1. The terminal event emits the record's message counters by role: on a server
  \<open>requests_per_rpc\<close> gets the received count and \<open>responses_per_rpc\<close> the sent count,
  on a client the other way round. First for any record, whatever its counters hold; then
  for a whole attempt: after \<open>TagRPC\<close> and any run of events (of this attempt and of
  others), with \<open>N\<close> inbound and \<open>M\<close> outbound payload events delivered to the attempt's
  record, the terminal event emits \<open>N\<close> and \<open>M\<close> (as \<open>int64\<close>). The handler has its
  two counters, as every constructed handler has.
\<close>

theorem End_counts_by_role:
  assumes "rpcRequestsPerRPC h = Some rq" and "rpcResponsesPerRPC h = Some rp"
  shows "(\<forall>ctx ri w. getRPCInfo ctx = Some ri \<longrightarrow>
            (\<exists>w' rest.
               HandleRPC h ctx (End bt err) w = Inr w'
             \<and> measurements w' = measurements w @
                 [Measurement rq (Int64 (if isClient h then sentMsgs (heap w ri) else recvMsgs (heap w ri)))
                    (getAttributes (fullMethodName (heap w ri)) err),
                  Measurement rp (Int64 (if isClient h then recvMsgs (heap w ri) else sentMsgs (heap w ri)))
                    (getAttributes (fullMethodName (heap w ri)) err)] @ rest))
       \<and> (\<exists>w2 w3 rest.
             deliver h evs (snd (TagRPC h ctx0 info w0)) = Inr w2
           \<and> HandleRPC h (fst (TagRPC h ctx0 info w0)) (End bt err) w2 = Inr w3
           \<and> measurements w3 = measurements w2 @
               [Measurement rq
                  (Int64 (of_nat (if isClient h then sent (nextAddr w0) evs else received (nextAddr w0) evs)))
                  (getAttributes (FullMethodName info) err),
                Measurement rp
                  (Int64 (of_nat (if isClient h then received (nextAddr w0) evs else sent (nextAddr w0) evs)))
                  (getAttributes (FullMethodName info) err)] @ rest)"
proof (intro conjI allI impI)
  fix ctx ri w assume "getRPCInfo ctx = Some ri"
  from HandleRPC_End_counts [OF assms this, of bt err w]
  show "\<exists>w' rest.
               HandleRPC h ctx (End bt err) w = Inr w'
             \<and> measurements w' = measurements w @
                 [Measurement rq (Int64 (if isClient h then sentMsgs (heap w ri) else recvMsgs (heap w ri)))
                    (getAttributes (fullMethodName (heap w ri)) err),
                  Measurement rp (Int64 (if isClient h then recvMsgs (heap w ri) else sentMsgs (heap w ri)))
                    (getAttributes (fullMethodName (heap w ri)) err)] @ rest"
    by blast
next
  let ?a = "nextAddr w0"
  let ?ctx = "fst (TagRPC h ctx0 info w0)"
  let ?w1 = "snd (TagRPC h ctx0 info w0)"
  have g: "getRPCInfo ?ctx = Some ?a" and r0: "heap ?w1 ?a =
       \<lparr>fullMethodName = FullMethodName info, sentMsgs = 0, sentBytes = 0, recvMsgs = 0, recvBytes = 0\<rparr>"
    using TagRPC_fresh [of h ctx0 info w0] by simp_all
  from deliver_counters [OF assms, of evs ?w1 ?a]
  obtain w2 where d: "deliver h evs ?w1 = Inr w2"
    and f: "fullMethodName (heap w2 ?a) = FullMethodName info"
    and r: "recvMsgs (heap w2 ?a) = of_nat (received ?a evs)"
    and s: "sentMsgs (heap w2 ?a) = of_nat (sent ?a evs)"
    by (auto simp: r0)
  let ?w3 = "w2\<lparr>measurements := measurements w2 @ endMeasurements h (heap w2 ?a) bt err w2 rq rp\<rparr>"
  have e: "HandleRPC h ?ctx (End bt err) w2 = Inr ?w3"
    by (rule HandleRPC_End [OF assms g])
  have "\<exists>rest. measurements ?w3 = measurements w2 @
             [Measurement rq
                (Int64 (of_nat (if isClient h then sent ?a evs else received ?a evs)))
                (getAttributes (FullMethodName info) err),
              Measurement rp
                (Int64 (of_nat (if isClient h then received ?a evs else sent ?a evs)))
                (getAttributes (FullMethodName info) err)] @ rest"
    by (simp add: endMeasurements_def Let_def f r s)
  with d e show "\<exists>w2 w3 rest.
             deliver h evs (snd (TagRPC h ctx0 info w0)) = Inr w2
           \<and> HandleRPC h (fst (TagRPC h ctx0 info w0)) (End bt err) w2 = Inr w3
           \<and> measurements w3 = measurements w2 @
               [Measurement rq
                  (Int64 (of_nat (if isClient h then sent (nextAddr w0) evs else received (nextAddr w0) evs)))
                  (getAttributes (FullMethodName info) err),
                Measurement rp
                  (Int64 (of_nat (if isClient h then received (nextAddr w0) evs else sent (nextAddr w0) evs)))
                  (getAttributes (FullMethodName info) err)] @ rest"
    by blast
qed

theorem End_counts_by_role_witness:
  "rpcRequestsPerRPC fullServerHandler = Some (Instrument Int64CounterKind ''rpc.server.requests_per_rpc'' ''1'')
   \<and> rpcResponsesPerRPC fullServerHandler = Some (Instrument Int64CounterKind ''rpc.server.responses_per_rpc'' ''1'')
   \<and> rpcRequestsPerRPC fullClientHandler = Some (Instrument Int64CounterKind ''rpc.client.requests_per_rpc'' ''1'')
   \<and> rpcResponsesPerRPC fullClientHandler = Some (Instrument Int64CounterKind ''rpc.client.responses_per_rpc'' ''1'')
   \<and> (\<exists>w2 w3 rest.
         deliver fullServerHandler
           [(setRPCInfo Map.empty (Some 0), InPayload 0),
            (setRPCInfo Map.empty (Some 0), OutPayload 2),
            (setRPCInfo Map.empty (Some 0), OutPayload 2)]
           (snd (TagRPC fullServerHandler Map.empty \<lparr>FullMethodName = ''/s/Stream'', FailFast = False\<rparr> emptyWorld))
           = Inr w2
       \<and> HandleRPC fullServerHandler (setRPCInfo Map.empty (Some 0)) (End 0 None) w2 = Inr w3
       \<and> measurements w3 = measurements w2 @
           [Measurement (Instrument Int64CounterKind ''rpc.server.requests_per_rpc'' ''1'') (Int64 1)
              (getAttributes ''/s/Stream'' None),
            Measurement (Instrument Int64CounterKind ''rpc.server.responses_per_rpc'' ''1'') (Int64 2)
              (getAttributes ''/s/Stream'' None)] @ rest)
   \<and> (\<exists>w2 w3 rest.
         deliver fullClientHandler
           [(setRPCInfo Map.empty (Some 0), OutPayload 0),
            (setRPCInfo Map.empty (Some 0), InPayload 2),
            (setRPCInfo Map.empty (Some 0), InPayload 2)]
           (snd (TagRPC fullClientHandler Map.empty \<lparr>FullMethodName = ''/s/Stream'', FailFast = False\<rparr> emptyWorld))
           = Inr w2
       \<and> HandleRPC fullClientHandler (setRPCInfo Map.empty (Some 0)) (End 0 None) w2 = Inr w3
       \<and> measurements w3 = measurements w2 @
           [Measurement (Instrument Int64CounterKind ''rpc.client.requests_per_rpc'' ''1'') (Int64 1)
              (getAttributes ''/s/Stream'' None),
            Measurement (Instrument Int64CounterKind ''rpc.client.responses_per_rpc'' ''1'') (Int64 2)
              (getAttributes ''/s/Stream'' None)] @ rest)"
proof -
  have s: "rpcRequestsPerRPC fullServerHandler = Some (Instrument Int64CounterKind ''rpc.server.requests_per_rpc'' ''1'')"
    "rpcResponsesPerRPC fullServerHandler = Some (Instrument Int64CounterKind ''rpc.server.responses_per_rpc'' ''1'')"
    by (simp_all add: fullServerHandler_def)
  have c: "rpcRequestsPerRPC fullClientHandler = Some (Instrument Int64CounterKind ''rpc.client.requests_per_rpc'' ''1'')"
    "rpcResponsesPerRPC fullClientHandler = Some (Instrument Int64CounterKind ''rpc.client.responses_per_rpc'' ''1'')"
    by (simp_all add: fullClientHandler_def)
  have t: "fst (TagRPC h Map.empty \<lparr>FullMethodName = ''/s/Stream'', FailFast = False\<rparr> emptyWorld)
             = setRPCInfo Map.empty (Some 0)" for h
    by (simp add: TagRPC_def Let_def emptyWorld_def)
  have n: "nextAddr emptyWorld = 0" by (simp add: emptyWorld_def)
  have i: "isClient fullClientHandler" "\<not> isClient fullServerHandler"
    by (simp_all add: fullClientHandler_def fullServerHandler_def)
  show ?thesis
    using End_counts_by_role [OF s, where evs =
        "[(setRPCInfo Map.empty (Some 0), InPayload 0),
          (setRPCInfo Map.empty (Some 0), OutPayload 2),
          (setRPCInfo Map.empty (Some 0), OutPayload 2)]"
        and ?ctx0.0 = Map.empty and info = "\<lparr>FullMethodName = ''/s/Stream'', FailFast = False\<rparr>"
        and ?w0.0 = emptyWorld and bt = 0 and err = None, THEN conjunct2]
      End_counts_by_role [OF c, where evs =
        "[(setRPCInfo Map.empty (Some 0), OutPayload 0),
          (setRPCInfo Map.empty (Some 0), InPayload 2),
          (setRPCInfo Map.empty (Some 0), InPayload 2)]"
        and ?ctx0.0 = Map.empty and info = "\<lparr>FullMethodName = ''/s/Stream'', FailFast = False\<rparr>"
        and ?w0.0 = emptyWorld and bt = 0 and err = None, THEN conjunct2]
    by (simp add: s c t n i received_def sent_def getRPCInfo_setRPCInfo)
qed

text \<open>
  Claim C5. A terminal event that carries an error emits the record's message counters as
  they are, by role, the same values as the terminal event without an error emits; only
  the attributes differ. The record is left as it was: nothing is reset.
\<close>

theorem End_counts_with_error:
  assumes "rpcRequestsPerRPC h = Some rq" and "rpcResponsesPerRPC h = Some rp"
    and "getRPCInfo ctx = Some ri"
  shows "\<exists>w' w'' rest rest'.
           HandleRPC h ctx (End bt (Some e)) w = Inr w'
         \<and> measurements w' = measurements w @
             [Measurement rq (Int64 (if isClient h then sentMsgs (heap w ri) else recvMsgs (heap w ri)))
                (getAttributes (fullMethodName (heap w ri)) (Some e)),
              Measurement rp (Int64 (if isClient h then recvMsgs (heap w ri) else sentMsgs (heap w ri)))
                (getAttributes (fullMethodName (heap w ri)) (Some e))] @ rest
         \<and> heap w' = heap w
         \<and> HandleRPC h ctx (End bt None) w = Inr w''
         \<and> measurements w'' = measurements w @
             [Measurement rq (Int64 (if isClient h then sentMsgs (heap w ri) else recvMsgs (heap w ri)))
                (getAttributes (fullMethodName (heap w ri)) None),
              Measurement rp (Int64 (if isClient h then recvMsgs (heap w ri) else sentMsgs (heap w ri)))
                (getAttributes (fullMethodName (heap w ri)) None)] @ rest'
         \<and> heap w'' = heap w"
  unfolding HandleRPC_End [OF assms]
  by (simp add: endMeasurements_def Let_def)

theorem End_counts_with_error_witness:
  "rpcRequestsPerRPC fullServerHandler = Some (Instrument Int64CounterKind ''rpc.server.requests_per_rpc'' ''1'')
   \<and> rpcResponsesPerRPC fullServerHandler = Some (Instrument Int64CounterKind ''rpc.server.responses_per_rpc'' ''1'')
   \<and> getRPCInfo (setRPCInfo Map.empty (Some 0)) = Some 0
   \<and> (\<exists>w' w'' rest rest'.
         HandleRPC fullServerHandler (setRPCInfo Map.empty (Some 0))
           (End 0 (Some (StatusError (status_New codes_NotFound ''error''))))
           (worldWith \<lparr>fullMethodName = ''/s/Error'', sentMsgs = 0, sentBytes = 0, recvMsgs = 1, recvBytes = 0\<rparr>)
           = Inr w'
       \<and> measurements w' =
           [Measurement (Instrument Int64CounterKind ''rpc.server.requests_per_rpc'' ''1'') (Int64 1)
              (getAttributes ''/s/Error'' (Some (StatusError (status_New codes_NotFound ''error'')))),
            Measurement (Instrument Int64CounterKind ''rpc.server.responses_per_rpc'' ''1'') (Int64 0)
              (getAttributes ''/s/Error'' (Some (StatusError (status_New codes_NotFound ''error''))))] @ rest
       \<and> heap w' 0 = \<lparr>fullMethodName = ''/s/Error'', sentMsgs = 0, sentBytes = 0, recvMsgs = 1, recvBytes = 0\<rparr>
       \<and> HandleRPC fullServerHandler (setRPCInfo Map.empty (Some 0)) (End 0 None)
           (worldWith \<lparr>fullMethodName = ''/s/Error'', sentMsgs = 0, sentBytes = 0, recvMsgs = 1, recvBytes = 0\<rparr>)
           = Inr w''
       \<and> measurements w'' =
           [Measurement (Instrument Int64CounterKind ''rpc.server.requests_per_rpc'' ''1'') (Int64 1)
              (getAttributes ''/s/Error'' None),
            Measurement (Instrument Int64CounterKind ''rpc.server.responses_per_rpc'' ''1'') (Int64 0)
              (getAttributes ''/s/Error'' None)] @ rest'
       \<and> heap w'' 0 = \<lparr>fullMethodName = ''/s/Error'', sentMsgs = 0, sentBytes = 0, recvMsgs = 1, recvBytes = 0\<rparr>)"
proof -
  have s: "rpcRequestsPerRPC fullServerHandler = Some (Instrument Int64CounterKind ''rpc.server.requests_per_rpc'' ''1'')"
    "rpcResponsesPerRPC fullServerHandler = Some (Instrument Int64CounterKind ''rpc.server.responses_per_rpc'' ''1'')"
    by (simp_all add: fullServerHandler_def)
  have g: "getRPCInfo (setRPCInfo Map.empty (Some 0)) = Some 0"
    by (rule getRPCInfo_setRPCInfo)
  have i: "\<not> isClient fullServerHandler" by (simp add: fullServerHandler_def)
  let ?W = "worldWith \<lparr>fullMethodName = ''/s/Error'', sentMsgs = 0, sentBytes = 0, recvMsgs = 1, recvBytes = 0\<rparr>"
  have r: "heap ?W 0 = \<lparr>fullMethodName = ''/s/Error'', sentMsgs = 0, sentBytes = 0, recvMsgs = 1, recvBytes = 0\<rparr>"
    and m: "measurements ?W = []"
    by (simp_all add: worldWith_def emptyWorld_def)
  from End_counts_with_error [OF s g, of 0 "StatusError (status_New codes_NotFound ''error'')" ?W]
  obtain w' w'' rest rest' where
    a: "HandleRPC fullServerHandler (setRPCInfo Map.empty (Some 0))
           (End 0 (Some (StatusError (status_New codes_NotFound ''error'')))) ?W = Inr w'"
    and b: "measurements w' = measurements ?W @
             [Measurement (Instrument Int64CounterKind ''rpc.server.requests_per_rpc'' ''1'')
                (Int64 (if isClient fullServerHandler then sentMsgs (heap ?W 0) else recvMsgs (heap ?W 0)))
                (getAttributes (fullMethodName (heap ?W 0)) (Some (StatusError (status_New codes_NotFound ''error'')))),
              Measurement (Instrument Int64CounterKind ''rpc.server.responses_per_rpc'' ''1'')
                (Int64 (if isClient fullServerHandler then recvMsgs (heap ?W 0) else sentMsgs (heap ?W 0)))
                (getAttributes (fullMethodName (heap ?W 0)) (Some (StatusError (status_New codes_NotFound ''error''))))] @ rest"
    and c: "heap w' = heap ?W"
    and d: "HandleRPC fullServerHandler (setRPCInfo Map.empty (Some 0)) (End 0 None) ?W = Inr w''"
    and e: "measurements w'' = measurements ?W @
             [Measurement (Instrument Int64CounterKind ''rpc.server.requests_per_rpc'' ''1'')
                (Int64 (if isClient fullServerHandler then sentMsgs (heap ?W 0) else recvMsgs (heap ?W 0)))
                (getAttributes (fullMethodName (heap ?W 0)) None),
              Measurement (Instrument Int64CounterKind ''rpc.server.responses_per_rpc'' ''1'')
                (Int64 (if isClient fullServerHandler then recvMsgs (heap ?W 0) else sentMsgs (heap ?W 0)))
                (getAttributes (fullMethodName (heap ?W 0)) None)] @ rest'"
    and f: "heap w'' = heap ?W"
    by (elim exE conjE)
  have b': "measurements w' =
           [Measurement (Instrument Int64CounterKind ''rpc.server.requests_per_rpc'' ''1'') (Int64 1)
              (getAttributes ''/s/Error'' (Some (StatusError (status_New codes_NotFound ''error'')))),
            Measurement (Instrument Int64CounterKind ''rpc.server.responses_per_rpc'' ''1'') (Int64 0)
              (getAttributes ''/s/Error'' (Some (StatusError (status_New codes_NotFound ''error''))))] @ rest"
    using b by (simp add: r m i)
  have e': "measurements w'' =
           [Measurement (Instrument Int64CounterKind ''rpc.server.requests_per_rpc'' ''1'') (Int64 1)
              (getAttributes ''/s/Error'' None),
            Measurement (Instrument Int64CounterKind ''rpc.server.responses_per_rpc'' ''1'') (Int64 0)
              (getAttributes ''/s/Error'' None)] @ rest'"
    using e by (simp add: r m i)
  have c': "heap w' 0 = \<lparr>fullMethodName = ''/s/Error'', sentMsgs = 0, sentBytes = 0, recvMsgs = 1, recvBytes = 0\<rparr>"
    by (simp add: c r)
  have f': "heap w'' 0 = \<lparr>fullMethodName = ''/s/Error'', sentMsgs = 0, sentBytes = 0, recvMsgs = 1, recvBytes = 0\<rparr>"
    by (simp add: f r)
  from s g a b' c' d e' f' show ?thesis by blast
qed

text \<open>
  Claim C7. On a handler that has both size histograms, the terminal event records, after
  the counters and the duration, the byte counters by role: into the request-size
  histogram the sent bytes on a client and the received bytes on a server, into the
  response-size histogram the other one. First for any record; then for a whole attempt,
  where the counters hold the summed lengths of the payload events delivered to the
  attempt's record.
\<close>

theorem End_sizes_by_role:
  assumes "rpcRequestsPerRPC h = Some rq" and "rpcResponsesPerRPC h = Some rp"
    and "rpcRequestSize h = Some qs" and "rpcResponseSize h = Some ps"
  shows "(\<forall>ctx ri w. getRPCInfo ctx = Some ri \<longrightarrow>
            (\<exists>w' before.
               HandleRPC h ctx (End bt err) w = Inr w'
             \<and> measurements w' = measurements w @ before @
                 [Measurement qs (Int64 (if isClient h then sentBytes (heap w ri) else recvBytes (heap w ri)))
                    (getAttributes (fullMethodName (heap w ri)) err),
                  Measurement ps (Int64 (if isClient h then recvBytes (heap w ri) else sentBytes (heap w ri)))
                    (getAttributes (fullMethodName (heap w ri)) err)]))
       \<and> (\<exists>w2 w3 before.
             deliver h evs (snd (TagRPC h ctx0 info w0)) = Inr w2
           \<and> HandleRPC h (fst (TagRPC h ctx0 info w0)) (End bt err) w2 = Inr w3
           \<and> measurements w3 = measurements w2 @ before @
               [Measurement qs
                  (Int64 (if isClient h then sentBytesOf (nextAddr w0) evs else receivedBytes (nextAddr w0) evs))
                  (getAttributes (FullMethodName info) err),
                Measurement ps
                  (Int64 (if isClient h then receivedBytes (nextAddr w0) evs else sentBytesOf (nextAddr w0) evs))
                  (getAttributes (FullMethodName info) err)])"
proof (intro conjI allI impI)
  fix ctx ri w assume "getRPCInfo ctx = Some ri"
  from HandleRPC_End_sizes [OF assms this, of bt err w]
  show "\<exists>w' before.
               HandleRPC h ctx (End bt err) w = Inr w'
             \<and> measurements w' = measurements w @ before @
                 [Measurement qs (Int64 (if isClient h then sentBytes (heap w ri) else recvBytes (heap w ri)))
                    (getAttributes (fullMethodName (heap w ri)) err),
                  Measurement ps (Int64 (if isClient h then recvBytes (heap w ri) else sentBytes (heap w ri)))
                    (getAttributes (fullMethodName (heap w ri)) err)]" .
next
  let ?a = "nextAddr w0"
  let ?ctx = "fst (TagRPC h ctx0 info w0)"
  let ?w1 = "snd (TagRPC h ctx0 info w0)"
  have g: "getRPCInfo ?ctx = Some ?a" and r0: "heap ?w1 ?a =
       \<lparr>fullMethodName = FullMethodName info, sentMsgs = 0, sentBytes = 0, recvMsgs = 0, recvBytes = 0\<rparr>"
    using TagRPC_fresh [of h ctx0 info w0] by simp_all
  from deliver_counters [OF assms(1,2), of evs ?w1 ?a]
  obtain w2 where d: "deliver h evs ?w1 = Inr w2"
    and f: "fullMethodName (heap w2 ?a) = FullMethodName info"
    and r: "recvBytes (heap w2 ?a) = receivedBytes ?a evs"
    and s: "sentBytes (heap w2 ?a) = sentBytesOf ?a evs"
    by (auto simp: r0 assms)
  from HandleRPC_End_sizes [OF assms g, of bt err w2]
  obtain w3 before where "HandleRPC h ?ctx (End bt err) w2 = Inr w3"
    and "measurements w3 = measurements w2 @ before @
             [Measurement qs (Int64 (if isClient h then sentBytes (heap w2 ?a) else recvBytes (heap w2 ?a)))
                (getAttributes (fullMethodName (heap w2 ?a)) err),
              Measurement ps (Int64 (if isClient h then recvBytes (heap w2 ?a) else sentBytes (heap w2 ?a)))
                (getAttributes (fullMethodName (heap w2 ?a)) err)]"
    by (elim exE conjE)
  with d show "\<exists>w2 w3 before.
             deliver h evs (snd (TagRPC h ctx0 info w0)) = Inr w2
           \<and> HandleRPC h (fst (TagRPC h ctx0 info w0)) (End bt err) w2 = Inr w3
           \<and> measurements w3 = measurements w2 @ before @
               [Measurement qs
                  (Int64 (if isClient h then sentBytesOf (nextAddr w0) evs else receivedBytes (nextAddr w0) evs))
                  (getAttributes (FullMethodName info) err),
                Measurement ps
                  (Int64 (if isClient h then receivedBytes (nextAddr w0) evs else sentBytesOf (nextAddr w0) evs))
                  (getAttributes (FullMethodName info) err)]"
    unfolding f r s by blast
qed

theorem End_sizes_by_role_witness:
  "rpcRequestsPerRPC fullClientHandler = Some (Instrument Int64CounterKind ''rpc.client.requests_per_rpc'' ''1'')
   \<and> rpcResponsesPerRPC fullClientHandler = Some (Instrument Int64CounterKind ''rpc.client.responses_per_rpc'' ''1'')
   \<and> rpcRequestSize fullClientHandler = Some (Instrument Int64HistogramKind ''rpc.client.request.size'' ''By'')
   \<and> rpcResponseSize fullClientHandler = Some (Instrument Int64HistogramKind ''rpc.client.response.size'' ''By'')
   \<and> getRPCInfo (setRPCInfo Map.empty (Some 0)) = Some 0
   \<and> (\<exists>w' before.
         HandleRPC fullClientHandler (setRPCInfo Map.empty (Some 0)) (End 0 None)
           (worldWith \<lparr>fullMethodName = ''/s/Ok'', sentMsgs = 1, sentBytes = 5, recvMsgs = 1, recvBytes = 7\<rparr>)
           = Inr w'
       \<and> measurements w' = before @
           [Measurement (Instrument Int64HistogramKind ''rpc.client.request.size'' ''By'') (Int64 5)
              (getAttributes ''/s/Ok'' None),
            Measurement (Instrument Int64HistogramKind ''rpc.client.response.size'' ''By'') (Int64 7)
              (getAttributes ''/s/Ok'' None)])"
proof -
  have s: "rpcRequestsPerRPC fullClientHandler = Some (Instrument Int64CounterKind ''rpc.client.requests_per_rpc'' ''1'')"
    "rpcResponsesPerRPC fullClientHandler = Some (Instrument Int64CounterKind ''rpc.client.responses_per_rpc'' ''1'')"
    "rpcRequestSize fullClientHandler = Some (Instrument Int64HistogramKind ''rpc.client.request.size'' ''By'')"
    "rpcResponseSize fullClientHandler = Some (Instrument Int64HistogramKind ''rpc.client.response.size'' ''By'')"
    by (simp_all add: fullClientHandler_def)
  have g: "getRPCInfo (setRPCInfo Map.empty (Some 0)) = Some 0"
    by (rule getRPCInfo_setRPCInfo)
  have i: "isClient fullClientHandler" by (simp add: fullClientHandler_def)
  let ?W = "worldWith \<lparr>fullMethodName = ''/s/Ok'', sentMsgs = 1, sentBytes = 5, recvMsgs = 1, recvBytes = 7\<rparr>"
  have r: "heap ?W 0 = \<lparr>fullMethodName = ''/s/Ok'', sentMsgs = 1, sentBytes = 5, recvMsgs = 1, recvBytes = 7\<rparr>"
    and m: "measurements ?W = []"
    by (simp_all add: worldWith_def emptyWorld_def)
  from End_sizes_by_role [OF s, where bt = 0 and err = None, THEN conjunct1, rule_format, OF g, where w = ?W]
  show ?thesis
    unfolding r m by (simp add: s g i)
qed

section \<open>Construction\<close>

lemma createInstruments_createAll:
  "createInstruments m p c h hist =
     (case createAll m (requests p c) hist of
        (Inl e, hist') \<Rightarrow> (Inl e, hist')
      | (Inr is, hist') \<Rightarrow> (Inr (assigned c h is), hist'))"
  by (cases "instrumentLatency c"; cases "instrumentSizes c")
    (simp_all add: createInstruments_def Let_def requests_def assigned_def Int64Counter_def
      Float64Histogram_def Int64Histogram_def create_def split: sum.split)

lemma newHandler_createAll:
  "newHandler b opts g hist =
     (case createAll (meterOf opts g) (requested b opts) hist of
        (Inl e, hist') \<Rightarrow> (Inl e, hist')
      | (Inr is, hist') \<Rightarrow>
          (Inr (assigned (configured opts)
                  \<lparr>isClient = b, rpcDuration = None, rpcRequestSize = None, rpcResponseSize = None,
                   rpcRequestsPerRPC = None, rpcResponsesPerRPC = None\<rparr> is), hist'))"
proof -
  have c: "foldl (\<lambda>c o'. Option_apply o' c)
       \<lparr>meterProvider = None, instrumentationName = [], instrumentSizes = False, instrumentLatency = False\<rparr>
       opts = configured opts"
    by (simp add: configured_def)
  have r: "requests p (c\<lparr>meterProvider := x\<rparr>) = requests p c"
    "requests p (c\<lparr>instrumentationName := y\<rparr>) = requests p c" for p c x y
    by (simp_all add: requests_def)
  have a: "assigned (c\<lparr>meterProvider := x\<rparr>) = assigned c"
    "assigned (c\<lparr>instrumentationName := y\<rparr>) = assigned c" for c x y
    by (simp_all add: assigned_def fun_eq_iff)
  show ?thesis
    by (cases "meterProvider (configured opts)")
      (simp_all add: newHandler_def createInstruments_createAll c Let_def meterOf_def
        requested_def r a split: prod.split sum.split)
qed

lemma createAll_Inr:
  "createAll m rs hist = (Inr is, hist') \<Longrightarrow>
     hist' = hist @ rs \<and> length is = length rs
     \<and> (\<forall>k<length rs. m (hist @ take k rs) (rs ! k) = Inr (is ! k))"
proof (induction rs arbitrary: hist "is")
  case Nil
  then show ?case by simp
next
  case (Cons r rs)
  from Cons.prems obtain i is' where r: "m hist r = Inr i"
    and rest: "createAll m rs (hist @ [r]) = (Inr is', hist')" and i: "is = i # is'"
    by (auto simp: create_def split: sum.splits prod.splits)
  from Cons.IH [OF rest] have h: "hist' = (hist @ [r]) @ rs" and l: "length is' = length rs"
    and a: "\<forall>k<length rs. m ((hist @ [r]) @ take k rs) (rs ! k) = Inr (is' ! k)"
    by simp_all
  have "m (hist @ take k (r # rs)) ((r # rs) ! k) = Inr (is ! k)" if "k < length (r # rs)" for k
  proof (cases k)
    case 0
    then show ?thesis by (simp add: r i)
  next
    case (Suc j)
    with that have "j < length rs" by simp
    with a have "m ((hist @ [r]) @ take j rs) (rs ! j) = Inr (is' ! j)" by blast
    then show ?thesis by (simp add: Suc i)
  qed
  with h l i show ?case by simp
qed

lemma createAll_Inl:
  "createAll m rs hist = (Inl e, hist') \<Longrightarrow>
     \<exists>n<length rs. hist' = hist @ take (Suc n) rs
       \<and> m (hist @ take n rs) (rs ! n) = Inl e
       \<and> (\<forall>k<n. \<exists>i. m (hist @ take k rs) (rs ! k) = Inr i)"
proof (induction rs arbitrary: hist)
  case Nil
  then show ?case by simp
next
  case (Cons r rs)
  show ?case
  proof (cases "m hist r")
    case (Inl e')
    with Cons.prems have "e' = e" "hist' = hist @ [r]" by (simp_all add: create_def)
    with Inl show ?thesis by (intro exI [of _ 0]) simp
  next
    case (Inr i)
    with Cons.prems have rest: "createAll m rs (hist @ [r]) = (Inl e, hist')"
      by (auto simp: create_def split: sum.splits prod.splits)
    from Cons.IH [OF rest] obtain n where n: "n < length rs"
      and h: "hist' = (hist @ [r]) @ take (Suc n) rs"
      and e: "m ((hist @ [r]) @ take n rs) (rs ! n) = Inl e"
      and a: "\<forall>k<n. \<exists>i. m ((hist @ [r]) @ take k rs) (rs ! k) = Inr i"
      by blast
    have "\<exists>i. m (hist @ take k (r # rs)) ((r # rs) ! k) = Inr i" if "k < Suc n" for k
    proof (cases k)
      case 0
      then show ?thesis by (simp add: Inr)
    next
      case (Suc j)
      with that have "j < n" by simp
      with a obtain i' where "m ((hist @ [r]) @ take j rs) (rs ! j) = Inr i'" by blast
      then show ?thesis by (simp add: Suc)
    qed
    with n h e show ?thesis by (intro exI [of _ "Suc n"]) simp
  qed
qed

lemma newHandler_Inr:
  assumes "newHandler b opts g hist = (Inr h, hist')"
  shows "\<exists>is. createAll (meterOf opts g) (requested b opts) hist = (Inr is, hist')
           \<and> isClient h = b
           \<and> rpcRequestsPerRPC h = Some (is ! 0) \<and> rpcResponsesPerRPC h = Some (is ! 1)
           \<and> rpcDuration h = (if instrumentLatency (configured opts) then Some (is ! 2) else None)
           \<and> rpcRequestSize h =
               (if instrumentSizes (configured opts)
                then Some (is ! (if instrumentLatency (configured opts) then 3 else 2)) else None)
           \<and> rpcResponseSize h =
               (if instrumentSizes (configured opts)
                then Some (is ! (if instrumentLatency (configured opts) then 4 else 3)) else None)"
  using assms unfolding newHandler_createAll
  by (auto simp: assigned_def split: prod.splits sum.splits)

lemma newHandler_Inl:
  assumes "newHandler b opts g hist = (Inl e, hist')"
  shows "createAll (meterOf opts g) (requested b opts) hist = (Inl e, hist')"
  using assms unfolding newHandler_createAll
  by (auto split: prod.splits sum.splits)

lemma createAll_accepted:
  assumes "\<forall>k<length rs. \<exists>i. m (hist @ take k rs) (rs ! k) = Inr i"
  shows "\<exists>is. createAll m rs hist = (Inr is, hist @ rs)"
proof (cases "createAll m rs hist")
  case (Pair r hist')
  show ?thesis
  proof (cases r)
    case (Inl e)
    from createAll_Inl [OF Pair [unfolded Inl]] assms show ?thesis by fastforce
  next
    case (Inr "is")
    from createAll_Inr [OF Pair [unfolded Inr]] Pair Inr show ?thesis by simp
  qed
qed

lemma configured_Nil:
  "configured [] = \<lparr>meterProvider = None, instrumentationName = [], instrumentSizes = False, instrumentLatency = False\<rparr>"
  by (simp add: configured_def)

lemma configured_snoc: "configured (opts @ [x]) = Option_apply x (configured opts)"
  by (simp add: configured_def)

text \<open>
  Claim C8. \<open>requested\<close> is what a construction asks for: always the two counters, the
  duration histogram exactly when the latency option is on, the two size histograms
  exactly when the sizes option is on; both options are off in the zero configuration
  and take the value of the last option that sets them. A construction that returns a
  handler has made exactly these requests, the backend accepted each, and the handler
  holds the instruments it returned, the optional ones absent when not requested. A
  construction that returns an error has stopped at the first request the backend
  rejected and returns that request's error; its result is the error, not a handler.
  When the backend accepts every request, a handler is returned.
\<close>

theorem newHandler_instruments:
  "(\<forall>h hist'. newHandler b opts g hist = (Inr h, hist') \<longrightarrow>
      hist' = hist @ requested b opts
    \<and> (\<exists>is. length is = length (requested b opts)
         \<and> (\<forall>k<length (requested b opts).
               meterOf opts g (hist @ take k (requested b opts)) (requested b opts ! k) = Inr (is ! k))
         \<and> isClient h = b
         \<and> rpcRequestsPerRPC h = Some (is ! 0)
         \<and> rpcResponsesPerRPC h = Some (is ! 1)
         \<and> rpcDuration h = (if instrumentLatency (configured opts) then Some (is ! 2) else None)
         \<and> rpcRequestSize h =
             (if instrumentSizes (configured opts)
              then Some (is ! (if instrumentLatency (configured opts) then 3 else 2)) else None)
         \<and> rpcResponseSize h =
             (if instrumentSizes (configured opts)
              then Some (is ! (if instrumentLatency (configured opts) then 4 else 3)) else None)))
   \<and> (\<forall>e hist'. newHandler b opts g hist = (Inl e, hist') \<longrightarrow>
        (\<exists>n<length (requested b opts).
            hist' = hist @ take (Suc n) (requested b opts)
          \<and> meterOf opts g (hist @ take n (requested b opts)) (requested b opts ! n) = Inl e
          \<and> (\<forall>k<n. \<exists>i. meterOf opts g (hist @ take k (requested b opts)) (requested b opts ! k) = Inr i)))
   \<and> ((\<forall>k<length (requested b opts).
          \<exists>i. meterOf opts g (hist @ take k (requested b opts)) (requested b opts ! k) = Inr i) \<longrightarrow>
        (\<exists>h. newHandler b opts g hist = (Inr h, hist @ requested b opts)))
   \<and> requested b opts =
        [(Int64CounterKind, (if b then ''rpc.client'' else ''rpc.server'') @ ''.requests_per_rpc'', ''1''),
         (Int64CounterKind, (if b then ''rpc.client'' else ''rpc.server'') @ ''.responses_per_rpc'', ''1'')]
        @ (if instrumentLatency (configured opts)
           then [(Float64HistogramKind, (if b then ''rpc.client'' else ''rpc.server'') @ ''.duration'', ''ms'')]
           else [])
        @ (if instrumentSizes (configured opts)
           then [(Int64HistogramKind, (if b then ''rpc.client'' else ''rpc.server'') @ ''.request.size'', ''By''),
                 (Int64HistogramKind, (if b then ''rpc.client'' else ''rpc.server'') @ ''.response.size'', ''By'')]
           else [])
   \<and> \<not> instrumentLatency (configured []) \<and> \<not> instrumentSizes (configured [])
   \<and> instrumentLatency (configured (opts @ [WithInstrumentLatency v])) = v
   \<and> instrumentSizes (configured (opts @ [WithInstrumentSizes v])) = v"
proof (intro conjI allI impI)
  fix h hist' assume a: "newHandler b opts g hist = (Inr h, hist')"
  from newHandler_Inr [OF a] obtain "is" where
    c: "createAll (meterOf opts g) (requested b opts) hist = (Inr is, hist')"
    and f: "isClient h = b" "rpcRequestsPerRPC h = Some (is ! 0)" "rpcResponsesPerRPC h = Some (is ! 1)"
      "rpcDuration h = (if instrumentLatency (configured opts) then Some (is ! 2) else None)"
      "rpcRequestSize h =
               (if instrumentSizes (configured opts)
                then Some (is ! (if instrumentLatency (configured opts) then 3 else 2)) else None)"
      "rpcResponseSize h =
               (if instrumentSizes (configured opts)
                then Some (is ! (if instrumentLatency (configured opts) then 4 else 3)) else None)"
    by blast
  from createAll_Inr [OF c] show "hist' = hist @ requested b opts" by simp
  from createAll_Inr [OF c] f
  show "\<exists>is. length is = length (requested b opts)
         \<and> (\<forall>k<length (requested b opts).
               meterOf opts g (hist @ take k (requested b opts)) (requested b opts ! k) = Inr (is ! k))
         \<and> isClient h = b
         \<and> rpcRequestsPerRPC h = Some (is ! 0)
         \<and> rpcResponsesPerRPC h = Some (is ! 1)
         \<and> rpcDuration h = (if instrumentLatency (configured opts) then Some (is ! 2) else None)
         \<and> rpcRequestSize h =
             (if instrumentSizes (configured opts)
              then Some (is ! (if instrumentLatency (configured opts) then 3 else 2)) else None)
         \<and> rpcResponseSize h =
             (if instrumentSizes (configured opts)
              then Some (is ! (if instrumentLatency (configured opts) then 4 else 3)) else None)"
    by (intro exI [of _ "is"]) simp
next
  fix e hist' assume a: "newHandler b opts g hist = (Inl e, hist')"
  from createAll_Inl [OF newHandler_Inl [OF a]]
  show "\<exists>n<length (requested b opts).
            hist' = hist @ take (Suc n) (requested b opts)
          \<and> meterOf opts g (hist @ take n (requested b opts)) (requested b opts ! n) = Inl e
          \<and> (\<forall>k<n. \<exists>i. meterOf opts g (hist @ take k (requested b opts)) (requested b opts ! k) = Inr i)" .
next
  assume "\<forall>k<length (requested b opts).
          \<exists>i. meterOf opts g (hist @ take k (requested b opts)) (requested b opts ! k) = Inr i"
  from createAll_accepted [OF this] obtain "is" where
    "createAll (meterOf opts g) (requested b opts) hist = (Inr is, hist @ requested b opts)" by blast
  then show "\<exists>h. newHandler b opts g hist = (Inr h, hist @ requested b opts)"
    by (simp add: newHandler_createAll)
next
  show "requested b opts =
        [(Int64CounterKind, (if b then ''rpc.client'' else ''rpc.server'') @ ''.requests_per_rpc'', ''1''),
         (Int64CounterKind, (if b then ''rpc.client'' else ''rpc.server'') @ ''.responses_per_rpc'', ''1'')]
        @ (if instrumentLatency (configured opts)
           then [(Float64HistogramKind, (if b then ''rpc.client'' else ''rpc.server'') @ ''.duration'', ''ms'')]
           else [])
        @ (if instrumentSizes (configured opts)
           then [(Int64HistogramKind, (if b then ''rpc.client'' else ''rpc.server'') @ ''.request.size'', ''By''),
                 (Int64HistogramKind, (if b then ''rpc.client'' else ''rpc.server'') @ ''.response.size'', ''By'')]
           else [])"
    by (simp add: requested_def requests_def)
next
  show "\<not> instrumentLatency (configured [])" by (simp add: configured_Nil)
  show "\<not> instrumentSizes (configured [])" by (simp add: configured_Nil)
  show "instrumentLatency (configured (opts @ [WithInstrumentLatency v])) = v"
    by (simp add: configured_snoc)
  show "instrumentSizes (configured (opts @ [WithInstrumentSizes v])) = v"
    by (simp add: configured_snoc)
qed

theorem newHandler_instruments_witness:
  "newHandler True
       [WithInstrumentLatency True, WithInstrumentationName ''my_name'', WithInstrumentSizes True,
        WithMeterProvider (Some noopMeterProvider)] strictMeterProvider []
     = (Inr fullClientHandler,
        [(Int64CounterKind, ''rpc.client.requests_per_rpc'', ''1''),
         (Int64CounterKind, ''rpc.client.responses_per_rpc'', ''1''),
         (Float64HistogramKind, ''rpc.client.duration'', ''ms''),
         (Int64HistogramKind, ''rpc.client.request.size'', ''By''),
         (Int64HistogramKind, ''rpc.client.response.size'', ''By'')])
   \<and> requested True
       [WithInstrumentLatency True, WithInstrumentationName ''my_name'', WithInstrumentSizes True,
        WithMeterProvider (Some noopMeterProvider)] =
        [(Int64CounterKind, ''rpc.client.requests_per_rpc'', ''1''),
         (Int64CounterKind, ''rpc.client.responses_per_rpc'', ''1''),
         (Float64HistogramKind, ''rpc.client.duration'', ''ms''),
         (Int64HistogramKind, ''rpc.client.request.size'', ''By''),
         (Int64HistogramKind, ''rpc.client.response.size'', ''By'')]
   \<and> newHandler False [] noopMeterProvider [] =
       (Inr defaultServerHandler,
        [(Int64CounterKind, ''rpc.server.requests_per_rpc'', ''1''),
         (Int64CounterKind, ''rpc.server.responses_per_rpc'', ''1'')])
   \<and> requested False [] =
        [(Int64CounterKind, ''rpc.server.requests_per_rpc'', ''1''),
         (Int64CounterKind, ''rpc.server.responses_per_rpc'', ''1'')]
   \<and> newHandler False [WithInstrumentLatency True] strictMeterProvider
         [(Int64CounterKind, ''rpc.server.duration'', ''1'')] =
       (Inl (OpaqueError ''instrument kind conflict: rpc.server.duration''),
        [(Int64CounterKind, ''rpc.server.duration'', ''1''),
         (Int64CounterKind, ''rpc.server.requests_per_rpc'', ''1''),
         (Int64CounterKind, ''rpc.server.responses_per_rpc'', ''1''),
         (Float64HistogramKind, ''rpc.server.duration'', ''ms'')])
   \<and> (\<exists>n<3. meterOf [WithInstrumentLatency True] strictMeterProvider
                 ([(Int64CounterKind, ''rpc.server.duration'', ''1'')]
                  @ take n (requested False [WithInstrumentLatency True]))
                 (requested False [WithInstrumentLatency True] ! n)
               = Inl (OpaqueError ''instrument kind conflict: rpc.server.duration''))"
proof -
  have 1: "newHandler True
       [WithInstrumentLatency True, WithInstrumentationName ''my_name'', WithInstrumentSizes True,
        WithMeterProvider (Some noopMeterProvider)] strictMeterProvider []
     = (Inr fullClientHandler,
        [(Int64CounterKind, ''rpc.client.requests_per_rpc'', ''1''),
         (Int64CounterKind, ''rpc.client.responses_per_rpc'', ''1''),
         (Float64HistogramKind, ''rpc.client.duration'', ''ms''),
         (Int64HistogramKind, ''rpc.client.request.size'', ''By''),
         (Int64HistogramKind, ''rpc.client.response.size'', ''By'')])"
    by code_simp
  have 2: "newHandler False [] noopMeterProvider [] =
       (Inr defaultServerHandler,
        [(Int64CounterKind, ''rpc.server.requests_per_rpc'', ''1''),
         (Int64CounterKind, ''rpc.server.responses_per_rpc'', ''1'')])"
    by code_simp
  have 3: "newHandler False [WithInstrumentLatency True] strictMeterProvider
         [(Int64CounterKind, ''rpc.server.duration'', ''1'')] =
       (Inl (OpaqueError ''instrument kind conflict: rpc.server.duration''),
        [(Int64CounterKind, ''rpc.server.duration'', ''1''),
         (Int64CounterKind, ''rpc.server.requests_per_rpc'', ''1''),
         (Int64CounterKind, ''rpc.server.responses_per_rpc'', ''1''),
         (Float64HistogramKind, ''rpc.server.duration'', ''ms'')])"
    by code_simp
  have l: "length (requested False [WithInstrumentLatency True]) = 3"
    by (simp add: requested_def requests_def configured_def)
  have a: "[(Int64CounterKind, ''rpc.client.requests_per_rpc'', ''1''),
         (Int64CounterKind, ''rpc.client.responses_per_rpc'', ''1''),
         (Float64HistogramKind, ''rpc.client.duration'', ''ms''),
         (Int64HistogramKind, ''rpc.client.request.size'', ''By''),
         (Int64HistogramKind, ''rpc.client.response.size'', ''By'')] = [] @ requested True
       [WithInstrumentLatency True, WithInstrumentationName ''my_name'', WithInstrumentSizes True,
        WithMeterProvider (Some noopMeterProvider)]"
    by (rule newHandler_instruments [THEN conjunct1, rule_format, OF 1, THEN conjunct1])
  have b: "[(Int64CounterKind, ''rpc.server.requests_per_rpc'', ''1''),
         (Int64CounterKind, ''rpc.server.responses_per_rpc'', ''1'')] = [] @ requested False []"
    by (rule newHandler_instruments [THEN conjunct1, rule_format, OF 2, THEN conjunct1])
  from newHandler_instruments [THEN conjunct2, THEN conjunct1, rule_format, OF 3]
  obtain n where "n < length (requested False [WithInstrumentLatency True])"
    and "meterOf [WithInstrumentLatency True] strictMeterProvider
                 ([(Int64CounterKind, ''rpc.server.duration'', ''1'')]
                  @ take n (requested False [WithInstrumentLatency True]))
                 (requested False [WithInstrumentLatency True] ! n)
               = Inl (OpaqueError ''instrument kind conflict: rpc.server.duration'')"
    by (elim exE conjE)
  then have c: "\<exists>n<3. meterOf [WithInstrumentLatency True] strictMeterProvider
                 ([(Int64CounterKind, ''rpc.server.duration'', ''1'')]
                  @ take n (requested False [WithInstrumentLatency True]))
                 (requested False [WithInstrumentLatency True] ! n)
               = Inl (OpaqueError ''instrument kind conflict: rpc.server.duration'')"
    unfolding l by (intro exI [of _ n] conjI)
  have a': "requested True
       [WithInstrumentLatency True, WithInstrumentationName ''my_name'', WithInstrumentSizes True,
        WithMeterProvider (Some noopMeterProvider)] =
        [(Int64CounterKind, ''rpc.client.requests_per_rpc'', ''1''),
         (Int64CounterKind, ''rpc.client.responses_per_rpc'', ''1''),
         (Float64HistogramKind, ''rpc.client.duration'', ''ms''),
         (Int64HistogramKind, ''rpc.client.request.size'', ''By''),
         (Int64HistogramKind, ''rpc.client.response.size'', ''By'')]"
    using a by simp
  have b': "requested False [] =
        [(Int64CounterKind, ''rpc.server.requests_per_rpc'', ''1''),
         (Int64CounterKind, ''rpc.server.responses_per_rpc'', ''1'')]"
    using b by simp
  show ?thesis
    by (intro conjI) (rule 1 a' 2 b' 3 c)+
qed

text \<open>
  Claim C10. A handler returned by construction has the request-size histogram exactly
  when it has the response-size histogram, both exactly when the sizes option is on. The
  callbacks take the handler as a value and return none: its fields stay as constructed.
  So an inbound payload adds its length to the received bytes exactly when the sizes
  option is on, an outbound payload to the sent bytes likewise, and exactly then the
  terminal event records both byte counters into the two size histograms; otherwise it
  records the counters and the duration only.
\<close>

theorem sizes_accumulated_iff_read:
  assumes "newHandler b opts g hist = (Inr h, hist')" and "getRPCInfo ctx = Some ri"
  shows "(rpcRequestSize h \<noteq> None) = (rpcResponseSize h \<noteq> None)
       \<and> (rpcRequestSize h \<noteq> None) = instrumentSizes (configured opts)
       \<and> (\<exists>w1. HandleRPC h ctx (InPayload len) w = Inr w1
             \<and> recvBytes (heap w1 ri) =
                 recvBytes (heap w ri) + (if instrumentSizes (configured opts) then len else 0)
             \<and> sentBytes (heap w1 ri) = sentBytes (heap w ri))
       \<and> (\<exists>w1. HandleRPC h ctx (OutPayload len) w = Inr w1
             \<and> sentBytes (heap w1 ri) =
                 sentBytes (heap w ri) + (if instrumentSizes (configured opts) then len else 0)
             \<and> recvBytes (heap w1 ri) = recvBytes (heap w ri))
       \<and> (\<exists>w' rq rp qs ps counts.
               HandleRPC h ctx (End bt err) w = Inr w'
             \<and> rpcRequestsPerRPC h = Some rq \<and> rpcResponsesPerRPC h = Some rp
             \<and> counts =
                 [Measurement rq (Int64 (if b then sentMsgs (heap w ri) else recvMsgs (heap w ri)))
                    (getAttributes (fullMethodName (heap w ri)) err),
                  Measurement rp (Int64 (if b then recvMsgs (heap w ri) else sentMsgs (heap w ri)))
                    (getAttributes (fullMethodName (heap w ri)) err)]
                 @ (case rpcDuration h of
                      None \<Rightarrow> []
                    | Some i \<Rightarrow> [Measurement i (Float64OfInt (Milliseconds (time_Since bt w)))
                                   (getAttributes (fullMethodName (heap w ri)) err)])
             \<and> (if instrumentSizes (configured opts)
                 then rpcRequestSize h = Some qs \<and> rpcResponseSize h = Some ps
                    \<and> measurements w' = measurements w @ counts @
                        [Measurement qs (Int64 (if b then sentBytes (heap w ri) else recvBytes (heap w ri)))
                           (getAttributes (fullMethodName (heap w ri)) err),
                         Measurement ps (Int64 (if b then recvBytes (heap w ri) else sentBytes (heap w ri)))
                           (getAttributes (fullMethodName (heap w ri)) err)]
                 else measurements w' = measurements w @ counts))"
proof -
  from newHandler_Inr [OF assms(1)] obtain "is" where
    f: "isClient h = b" "rpcRequestsPerRPC h = Some (is ! 0)" "rpcResponsesPerRPC h = Some (is ! 1)"
      "rpcRequestSize h =
               (if instrumentSizes (configured opts)
                then Some (is ! (if instrumentLatency (configured opts) then 3 else 2)) else None)"
      "rpcResponseSize h =
               (if instrumentSizes (configured opts)
                then Some (is ! (if instrumentLatency (configured opts) then 4 else 3)) else None)"
    by blast
  have 1: "(rpcRequestSize h \<noteq> None) = (rpcResponseSize h \<noteq> None)" by (simp add: f)
  have 2: "(rpcRequestSize h \<noteq> None) = instrumentSizes (configured opts)" by (simp add: f)
  have s2: "(rpcResponseSize h \<noteq> None) = instrumentSizes (configured opts)" by (simp add: f)
  have 3: "\<exists>w1. HandleRPC h ctx (InPayload len) w = Inr w1
             \<and> recvBytes (heap w1 ri) =
                 recvBytes (heap w ri) + (if instrumentSizes (configured opts) then len else 0)
             \<and> sentBytes (heap w1 ri) = sentBytes (heap w ri)"
    unfolding HandleRPC_InPayload [OF assms(2)] 2 by simp
  have 4: "\<exists>w1. HandleRPC h ctx (OutPayload len) w = Inr w1
             \<and> sentBytes (heap w1 ri) =
                 sentBytes (heap w ri) + (if instrumentSizes (configured opts) then len else 0)
             \<and> recvBytes (heap w1 ri) = recvBytes (heap w ri)"
    unfolding HandleRPC_OutPayload [OF assms(2)] s2 by simp
  let ?attrs = "getAttributes (fullMethodName (heap w ri)) err"
  let ?counts = "[Measurement (is ! 0) (Int64 (if b then sentMsgs (heap w ri) else recvMsgs (heap w ri))) ?attrs,
                  Measurement (is ! 1) (Int64 (if b then recvMsgs (heap w ri) else sentMsgs (heap w ri))) ?attrs]
                 @ (case rpcDuration h of
                      None \<Rightarrow> []
                    | Some i \<Rightarrow> [Measurement i (Float64OfInt (Milliseconds (time_Since bt w))) ?attrs])"
  let ?w' = "w\<lparr>measurements := measurements w @ endMeasurements h (heap w ri) bt err w (is ! 0) (is ! 1)\<rparr>"
  have e: "HandleRPC h ctx (End bt err) w = Inr ?w'"
    by (rule HandleRPC_End [OF f(2) f(3) assms(2)])
  have m: "if instrumentSizes (configured opts)
           then measurements ?w' = measurements w @ ?counts @
                  [Measurement (is ! (if instrumentLatency (configured opts) then 3 else 2))
                     (Int64 (if b then sentBytes (heap w ri) else recvBytes (heap w ri))) ?attrs,
                   Measurement (is ! (if instrumentLatency (configured opts) then 4 else 3))
                     (Int64 (if b then recvBytes (heap w ri) else sentBytes (heap w ri))) ?attrs]
           else measurements ?w' = measurements w @ ?counts"
    by (simp add: endMeasurements_def Let_def f)
  have 5: "\<exists>w' rq rp qs ps counts.
               HandleRPC h ctx (End bt err) w = Inr w'
             \<and> rpcRequestsPerRPC h = Some rq \<and> rpcResponsesPerRPC h = Some rp
             \<and> counts =
                 [Measurement rq (Int64 (if b then sentMsgs (heap w ri) else recvMsgs (heap w ri))) ?attrs,
                  Measurement rp (Int64 (if b then recvMsgs (heap w ri) else sentMsgs (heap w ri))) ?attrs]
                 @ (case rpcDuration h of
                      None \<Rightarrow> []
                    | Some i \<Rightarrow> [Measurement i (Float64OfInt (Milliseconds (time_Since bt w))) ?attrs])
             \<and> (if instrumentSizes (configured opts)
                 then rpcRequestSize h = Some qs \<and> rpcResponseSize h = Some ps
                    \<and> measurements w' = measurements w @ counts @
                        [Measurement qs (Int64 (if b then sentBytes (heap w ri) else recvBytes (heap w ri))) ?attrs,
                         Measurement ps (Int64 (if b then recvBytes (heap w ri) else sentBytes (heap w ri))) ?attrs]
                 else measurements w' = measurements w @ counts)"
    apply (rule exI [of _ ?w'])
    apply (rule exI [of _ "is ! 0"])
    apply (rule exI [of _ "is ! 1"])
    apply (rule exI [of _ "is ! (if instrumentLatency (configured opts) then 3 else 2)"])
    apply (rule exI [of _ "is ! (if instrumentLatency (configured opts) then 4 else 3)"])
    apply (rule exI [of _ ?counts])
    using e m f by (simp split: if_splits)
  from 1 2 3 4 5 show ?thesis by blast
qed

theorem sizes_accumulated_iff_read_witness:
  "newHandler True
       [WithInstrumentLatency True, WithInstrumentationName ''my_name'', WithInstrumentSizes True,
        WithMeterProvider (Some noopMeterProvider)] strictMeterProvider []
     = (Inr fullClientHandler,
        [(Int64CounterKind, ''rpc.client.requests_per_rpc'', ''1''),
         (Int64CounterKind, ''rpc.client.responses_per_rpc'', ''1''),
         (Float64HistogramKind, ''rpc.client.duration'', ''ms''),
         (Int64HistogramKind, ''rpc.client.request.size'', ''By''),
         (Int64HistogramKind, ''rpc.client.response.size'', ''By'')])
   \<and> newHandler False [] noopMeterProvider [] =
       (Inr defaultServerHandler,
        [(Int64CounterKind, ''rpc.server.requests_per_rpc'', ''1''),
         (Int64CounterKind, ''rpc.server.responses_per_rpc'', ''1'')])
   \<and> getRPCInfo (setRPCInfo Map.empty (Some 0)) = Some 0
   \<and> rpcRequestSize fullClientHandler \<noteq> None \<and> rpcResponseSize fullClientHandler \<noteq> None
   \<and> (\<exists>w1. HandleRPC fullClientHandler (setRPCInfo Map.empty (Some 0)) (InPayload 4) emptyWorld = Inr w1
          \<and> recvBytes (heap w1 0) = 4)
   \<and> rpcRequestSize defaultServerHandler = None \<and> rpcResponseSize defaultServerHandler = None
   \<and> (\<exists>w1. HandleRPC defaultServerHandler (setRPCInfo Map.empty (Some 0)) (InPayload 4) emptyWorld = Inr w1
          \<and> recvBytes (heap w1 0) = 0)"
proof -
  let ?opts = "[WithInstrumentLatency True, WithInstrumentationName ''my_name'', WithInstrumentSizes True,
        WithMeterProvider (Some noopMeterProvider)]"
  let ?ctx = "setRPCInfo Map.empty (Some 0)"
  have 1: "newHandler True ?opts strictMeterProvider []
     = (Inr fullClientHandler,
        [(Int64CounterKind, ''rpc.client.requests_per_rpc'', ''1''),
         (Int64CounterKind, ''rpc.client.responses_per_rpc'', ''1''),
         (Float64HistogramKind, ''rpc.client.duration'', ''ms''),
         (Int64HistogramKind, ''rpc.client.request.size'', ''By''),
         (Int64HistogramKind, ''rpc.client.response.size'', ''By'')])"
    by code_simp
  have 2: "newHandler False [] noopMeterProvider [] =
       (Inr defaultServerHandler,
        [(Int64CounterKind, ''rpc.server.requests_per_rpc'', ''1''),
         (Int64CounterKind, ''rpc.server.responses_per_rpc'', ''1'')])"
    by code_simp
  have g: "getRPCInfo ?ctx = Some 0" by (rule getRPCInfo_setRPCInfo)
  have c1: "instrumentSizes (configured ?opts)" by (simp add: configured_def)
  have c2: "\<not> instrumentSizes (configured [])" by (simp add: configured_def)
  have z: "recvBytes (heap emptyWorld 0) = 0" by (simp add: emptyWorld_def)
  note t1 = sizes_accumulated_iff_read [OF 1 g, of 4 emptyWorld 0 None]
  note t2 = sizes_accumulated_iff_read [OF 2 g, of 4 emptyWorld 0 None]
  have a1: "rpcRequestSize fullClientHandler \<noteq> None"
    using t1 [THEN conjunct2, THEN conjunct1] c1 by simp
  have a2: "rpcResponseSize fullClientHandler \<noteq> None"
    using t1 [THEN conjunct1] a1 by simp
  from t1 [THEN conjunct2, THEN conjunct2, THEN conjunct1]
  obtain w1 where "HandleRPC fullClientHandler ?ctx (InPayload 4) emptyWorld = Inr w1"
    and "recvBytes (heap w1 0) = recvBytes (heap emptyWorld 0) + (if instrumentSizes (configured ?opts) then 4 else 0)"
    by (elim exE conjE)
  then have a3: "\<exists>w1. HandleRPC fullClientHandler ?ctx (InPayload 4) emptyWorld = Inr w1
          \<and> recvBytes (heap w1 0) = 4"
    by (simp add: c1 z)
  have b1: "rpcRequestSize defaultServerHandler = None"
    using t2 [THEN conjunct2, THEN conjunct1] c2 by simp
  have b2: "rpcResponseSize defaultServerHandler = None"
    using t2 [THEN conjunct1] b1 by simp
  from t2 [THEN conjunct2, THEN conjunct2, THEN conjunct1]
  obtain w1 where "HandleRPC defaultServerHandler ?ctx (InPayload 4) emptyWorld = Inr w1"
    and "recvBytes (heap w1 0) = recvBytes (heap emptyWorld 0) + (if instrumentSizes (configured []) then 4 else 0)"
    by (elim exE conjE)
  then have b3: "\<exists>w1. HandleRPC defaultServerHandler ?ctx (InPayload 4) emptyWorld = Inr w1
          \<and> recvBytes (heap w1 0) = 0"
    by (simp add: c2 z)
  show ?thesis
    by (intro conjI) (rule 1 2 g a1 a2 a3 b1 b2 b3)+
qed

end
